theory Spec2Isabelle
  imports Complex_Main "HOL-Library.Sublist"
begin

section \<open>Strings\<close>

text \<open>
  A Python \<open>str\<close> is modelled as a \<open>string\<close> holding the UTF-8 bytes of the text. Every
  character that the program inspects (the weather descriptions, the AQI labels, the unit
  names and the substrings searched for) is ASCII; the glyphs of the messages are carried
  along as their UTF-8 bytes and are never inspected.
\<close>

definition upper_letters :: string where
  "upper_letters = ''ABCDEFGHIJKLMNOPQRSTUVWXYZ''"

definition lower_letters :: string where
  "lower_letters = ''abcdefghijklmnopqrstuvwxyz''"

definition lower_char :: "char \<Rightarrow> char" where
  "lower_char c =
     (case map_of (zip upper_letters lower_letters) c of None \<Rightarrow> c | Some l \<Rightarrow> l)"

definition upper_char :: "char \<Rightarrow> char" where
  "upper_char c =
     (case map_of (zip lower_letters upper_letters) c of None \<Rightarrow> c | Some u \<Rightarrow> u)"

text \<open>
  \<open>s.lower()\<close>: the letters A to Z are replaced by a to z, every other byte stays. The
  program lowers the descriptions of the table and the AQI labels only.
\<close>

definition str_lower :: "string \<Rightarrow> string" where
  "str_lower s = map lower_char s"

text \<open>
  \<open>s.title()\<close>: a letter that follows a letter is lowered, a letter that follows anything
  else (or starts the text) is raised; the flag says whether the previous character was a
  letter.
\<close>

fun title_from :: "bool \<Rightarrow> string \<Rightarrow> string" where
  "title_from prev [] = []"
| "title_from prev (c # cs) =
     (if c \<in> set lower_letters then (if prev then c else upper_char c) # title_from True cs
      else if c \<in> set upper_letters then (if prev then lower_char c else c) # title_from True cs
      else c # title_from False cs)"

definition str_title :: "string \<Rightarrow> string" where
  "str_title s = title_from False s"

text \<open>\<open>sub in s\<close> on two strings: \<open>sub\<close> occurs in \<open>s\<close> as a contiguous block.\<close>

fun str_in :: "string \<Rightarrow> string \<Rightarrow> bool" where
  "str_in sub [] = (sub = [])"
| "str_in sub (c # cs) = (prefix sub (c # cs) \<or> str_in sub cs)"

text \<open>\<open>d.get(k, default)\<close> on a dict.\<close>

definition dict_get :: "('k \<rightharpoonup> 'v) \<Rightarrow> 'k \<Rightarrow> 'v \<Rightarrow> 'v" where
  "dict_get d k dflt = (case d k of None \<Rightarrow> dflt | Some v \<Rightarrow> v)"

subsection \<open>Glyphs of the table and of the messages (UTF-8)\<close>

definition vs16 :: string where
  "vs16 = [CHR 0xEF, CHR 0xB8, CHR 0x8F]"

definition glyph_sun :: string where
  "glyph_sun = [CHR 0xE2, CHR 0x98, CHR 0x80] @ vs16"

definition glyph_sun_small_cloud :: string where
  "glyph_sun_small_cloud = [CHR 0xF0, CHR 0x9F, CHR 0x8C, CHR 0xA4] @ vs16"

definition glyph_sun_behind_cloud :: string where
  "glyph_sun_behind_cloud = [CHR 0xE2, CHR 0x9B, CHR 0x85] @ vs16"

definition glyph_cloud :: string where
  "glyph_cloud = [CHR 0xE2, CHR 0x98, CHR 0x81] @ vs16"

definition glyph_fog :: string where
  "glyph_fog = [CHR 0xF0, CHR 0x9F, CHR 0x8C, CHR 0xAB] @ vs16"

definition glyph_droplet :: string where
  "glyph_droplet = [CHR 0xF0, CHR 0x9F, CHR 0x92, CHR 0xA7]"

definition glyph_snowflake :: string where
  "glyph_snowflake = [CHR 0xE2, CHR 0x9D, CHR 0x84] @ vs16"

definition glyph_rain_cloud :: string where
  "glyph_rain_cloud = [CHR 0xF0, CHR 0x9F, CHR 0x8C, CHR 0xA7] @ vs16"

definition glyph_sun_rain_cloud :: string where
  "glyph_sun_rain_cloud = [CHR 0xF0, CHR 0x9F, CHR 0x8C, CHR 0xA6] @ vs16"

definition glyph_thunder_cloud :: string where
  "glyph_thunder_cloud = [CHR 0xE2, CHR 0x9B, CHR 0x88] @ vs16"

definition glyph_question :: string where
  "glyph_question = [CHR 0xE2, CHR 0x9D, CHR 0x93]"

definition glyph_books :: string where
  "glyph_books = [CHR 0xF0, CHR 0x9F, CHR 0x93, CHR 0x9A]"

definition glyph_hot_beverage :: string where
  "glyph_hot_beverage = [CHR 0xE2, CHR 0x98, CHR 0x95]"

definition glyph_sunglasses :: string where
  "glyph_sunglasses = [CHR 0xF0, CHR 0x9F, CHR 0x98, CHR 0x8E]"

definition glyph_scarf :: string where
  "glyph_scarf = [CHR 0xF0, CHR 0x9F, CHR 0xA7, CHR 0xA3]"

definition glyph_sparkles :: string where
  "glyph_sparkles = [CHR 0xE2, CHR 0x9C, CHR 0xA8]"

definition glyph_umbrella :: string where
  "glyph_umbrella = [CHR 0xE2, CHR 0x98, CHR 0x82] @ vs16"

definition glyph_coat :: string where
  "glyph_coat = [CHR 0xF0, CHR 0x9F, CHR 0xA7, CHR 0xA5]"

definition glyph_mask :: string where
  "glyph_mask = [CHR 0xF0, CHR 0x9F, CHR 0x98, CHR 0xB7]"

section \<open>Classification tables\<close>

text \<open>The dict \<open>WMO_CODES\<close>: weather code to (description, icon), in the order of the source.\<close>

definition WMO_CODES :: "int \<rightharpoonup> string \<times> string" where
  "WMO_CODES = map_of
     [(0, (''Clear sky'', glyph_sun)),
      (1, (''Mainly clear'', glyph_sun_small_cloud)),
      (2, (''Partly cloudy'', glyph_sun_behind_cloud)),
      (3, (''Overcast'', glyph_cloud)),
      (45, (''Fog'', glyph_fog)),
      (48, (''Depositing rime fog'', glyph_fog)),
      (51, (''Light drizzle'', glyph_droplet)),
      (53, (''Moderate drizzle'', glyph_droplet)),
      (55, (''Dense drizzle'', glyph_droplet)),
      (56, (''Light freezing drizzle'', glyph_snowflake @ glyph_droplet)),
      (57, (''Dense freezing drizzle'', glyph_snowflake @ glyph_droplet)),
      (61, (''Slight rain'', glyph_rain_cloud)),
      (63, (''Moderate rain'', glyph_rain_cloud)),
      (65, (''Heavy rain'', glyph_rain_cloud)),
      (66, (''Light freezing rain'', glyph_snowflake @ glyph_rain_cloud)),
      (67, (''Heavy freezing rain'', glyph_snowflake @ glyph_rain_cloud)),
      (71, (''Slight snow fall'', glyph_snowflake)),
      (73, (''Moderate snow fall'', glyph_snowflake)),
      (75, (''Heavy snow fall'', glyph_snowflake)),
      (77, (''Snow grains'', glyph_snowflake)),
      (80, (''Slight rain showers'', glyph_sun_rain_cloud)),
      (81, (''Moderate rain showers'', glyph_sun_rain_cloud)),
      (82, (''Violent rain showers'', glyph_sun_rain_cloud)),
      (85, (''Slight snow showers'', glyph_snowflake @ glyph_sun_rain_cloud)),
      (86, (''Heavy snow showers'', glyph_snowflake @ glyph_sun_rain_cloud)),
      (95, (''Thunderstorm'', glyph_thunder_cloud)),
      (96, (''Thunderstorm with light hail'', glyph_thunder_cloud)),
      (99, (''Thunderstorm with heavy hail'', glyph_thunder_cloud))]"

text \<open>
  The lookup of the two display places (current conditions and each day of the forecast):
  \<open>WMO_CODES.get(code, ("Unknown", "?"))\<close>, the default icon being the question-mark glyph.
\<close>

definition weather_display :: "int \<Rightarrow> string \<times> string" where
  "weather_display weather_code = dict_get WMO_CODES weather_code (''Unknown'', glyph_question)"

text \<open>
  The lookup of the three recommendation functions:
  \<open>WMO_CODES.get(weather_code, ("Unknown", ""))[0].lower()\<close>.
\<close>

definition condition_of :: "int \<Rightarrow> string" where
  "condition_of weather_code = str_lower (fst (dict_get WMO_CODES weather_code (''Unknown'', '''')))"

definition get_aqi_level :: "int \<Rightarrow> string \<times> string" where
  "get_aqi_level aqi =
     (if aqi \<le> 50 then (''Good'', ''green'')
      else if aqi \<le> 100 then (''Moderate'', ''yellow'')
      else if aqi \<le> 150 then (''Unhealthy (SG)'', ''orange'')
      else if aqi \<le> 200 then (''Unhealthy'', ''red'')
      else if aqi \<le> 300 then (''Very Unhealthy'', ''purple'')
      else (''Hazardous'', ''maroon''))"

section \<open>Recommendation rules\<close>

text \<open>
  The temperature is a Python number. The three functions are given first on the real
  numbers: the thresholds are compared with the temperature as they stand, and the only
  arithmetic is the conversion from Fahrenheit, whose rounding in binary floating point is
  not part of the model. The floats that are not real numbers (\<open>nan\<close>, on which every
  comparison is false, and the two infinities) are the subject of the subsection on Python
  floats below.
\<close>

subsection \<open>The messages\<close>

definition mood_indoor_reading :: string where
  "mood_indoor_reading = ''Cozy indoor reading weather '' @ glyph_books"

definition mood_hot_chocolate :: string where
  "mood_hot_chocolate = ''Hot chocolate & blanket vibes '' @ glyph_hot_beverage @ vs16"

definition mood_bright_breezy :: string where
  "mood_bright_breezy = ''Bright, breezy, and sunglasses on '' @ glyph_sunglasses"

definition mood_crisp_air :: string where
  "mood_crisp_air = ''Crisp air & warm jacket day '' @ glyph_scarf"

definition mood_soft_skies :: string where
  "mood_soft_skies = ''Perfectly soft and cloudy skies '' @ glyph_cloud"

definition mood_blue_skies :: string where
  "mood_blue_skies = ''Blue skies and good times ahead '' @ glyph_sun"

definition mood_default :: string where
  "mood_default = ''A great day to be you! '' @ glyph_sparkles"

definition clothing_waterproof :: string where
  "clothing_waterproof = ''Waterproof jacket and an umbrella are a must! '' @ glyph_umbrella"

definition clothing_heavy_coat :: string where
  "clothing_heavy_coat = ''Heavy coat, gloves, and a warm hat. Stay bundled!''"

definition clothing_stay_indoors :: string where
  "clothing_stay_indoors =
     ''Stay indoors! But if you must go out, waterproof gear is essential.''"

definition clothing_light_fabrics :: string where
  "clothing_light_fabrics = ''Light cotton or linen clothes. Stay hydrated!''"

definition clothing_tshirt :: string where
  "clothing_tshirt = ''A t-shirt and jeans/shorts will be comfortable.''"

definition clothing_light_jacket :: string where
  "clothing_light_jacket = ''A light jacket or sweater is a good idea. '' @ glyph_coat"

definition clothing_warm_coat :: string where
  "clothing_warm_coat = ''Wear a warm coat, layers are your friend!''"

definition clothing_default :: string where
  "clothing_default = ''Check the conditions and dress accordingly.''"

definition activity_pollution :: "string \<Rightarrow> string" where
  "activity_pollution aqi_level =
     ''High pollution! ('' @ str_title aqi_level @ '') '' @ glyph_mask
       @ '' Best to stay indoors. Good day for study or indoor exercise.''"

definition activity_wet :: string where
  "activity_wet =
     ''Looks wet out there! Perfect time for a movie marathon, baking, or visiting an indoor cafe. ''
       @ glyph_hot_beverage"

definition activity_snow :: string where
  "activity_snow = ''It's a winter wonderland! '' @ glyph_snowflake
     @ '' Great for building a snowman or cozying up by the fire.''"

definition activity_clear :: string where
  "activity_clear = ''Clear skies! '' @ glyph_sun
     @ '' Fantastic day for jogging, a picnic in the park, or photography.''"

definition activity_overcast :: string where
  "activity_overcast =
     ''Pleasantly overcast. Great for a long walk, gardening, or outdoor sports without the harsh sun.''"

definition activity_default :: string where
  "activity_default = ''A versatile day! Most outdoor or indoor activities are on the table.''"

subsection \<open>The three functions\<close>

definition get_weather_mood :: "int \<Rightarrow> real \<Rightarrow> string \<Rightarrow> string" where
  "get_weather_mood weather_code temp unit =
     (let temp_c = (if unit = ''metric'' then temp else (temp - 32) * 5 / 9);
          condition = condition_of weather_code
      in if str_in ''rain'' condition \<or> str_in ''storm'' condition \<or> str_in ''drizzle'' condition
           then mood_indoor_reading
         else if str_in ''snow'' condition then mood_hot_chocolate
         else if temp_c > 30 then mood_bright_breezy
         else if temp_c < 10 then mood_crisp_air
         else if str_in ''cloudy'' condition \<or> str_in ''overcast'' condition then mood_soft_skies
         else if str_in ''clear'' condition then mood_blue_skies
         else mood_default)"

definition get_clothing_recommendation :: "int \<Rightarrow> real \<Rightarrow> string \<Rightarrow> string" where
  "get_clothing_recommendation weather_code temp unit =
     (let temp_c = (if unit = ''metric'' then temp else (temp - 32) * 5 / 9);
          condition = condition_of weather_code
      in if str_in ''rain'' condition \<or> str_in ''drizzle'' condition then clothing_waterproof
         else if str_in ''snow'' condition then clothing_heavy_coat
         else if str_in ''storm'' condition then clothing_stay_indoors
         else if temp_c > 28 then clothing_light_fabrics
         else if 20 \<le> temp_c \<and> temp_c \<le> 28 then clothing_tshirt
         else if 10 \<le> temp_c \<and> temp_c < 20 then clothing_light_jacket
         else if temp_c < 10 then clothing_warm_coat
         else clothing_default)"

definition get_activity_recommendation :: "int \<Rightarrow> string \<Rightarrow> string" where
  "get_activity_recommendation weather_code aqi_level_arg =
     (let condition = condition_of weather_code;
          aqi_level = str_lower aqi_level_arg
      in if aqi_level \<in> set [''unhealthy'', ''very unhealthy'', ''hazardous'']
           then activity_pollution aqi_level
         else if str_in ''rain'' condition \<or> str_in ''storm'' condition \<or> str_in ''drizzle'' condition
           then activity_wet
         else if str_in ''snow'' condition then activity_snow
         else if str_in ''clear'' condition \<or> str_in ''mainly clear'' condition then activity_clear
         else if str_in ''cloudy'' condition \<or> str_in ''overcast'' condition \<or> str_in ''fog'' condition
           then activity_overcast
         else activity_default)"

subsection \<open>Python floats\<close>

text \<open>
  The values of a Python float: the numbers, the two infinities and \<open>nan\<close> (the JSON decoder
  of Python accepts the literals \<open>NaN\<close>, \<open>Infinity\<close> and \<open>-Infinity\<close>). An operation with a
  \<open>nan\<close> operand gives \<open>nan\<close>, and every comparison with \<open>nan\<close> is false. The second operand
  of the operations below is a literal of the source (32, 5, 9 and the thresholds); the
  divisor is never zero.
\<close>

datatype pyfloat = Finite real | PosInf | NegInf | NaN

fun float_sub :: "pyfloat \<Rightarrow> real \<Rightarrow> pyfloat" where
  "float_sub (Finite x) c = Finite (x - c)"
| "float_sub PosInf c = PosInf"
| "float_sub NegInf c = NegInf"
| "float_sub NaN c = NaN"

fun float_mul :: "pyfloat \<Rightarrow> real \<Rightarrow> pyfloat" where
  "float_mul (Finite x) c = Finite (x * c)"
| "float_mul PosInf c = (if 0 < c then PosInf else if c < 0 then NegInf else NaN)"
| "float_mul NegInf c = (if 0 < c then NegInf else if c < 0 then PosInf else NaN)"
| "float_mul NaN c = NaN"

fun float_div :: "pyfloat \<Rightarrow> real \<Rightarrow> pyfloat" where
  "float_div (Finite x) c = Finite (x / c)"
| "float_div PosInf c = (if 0 < c then PosInf else NegInf)"
| "float_div NegInf c = (if 0 < c then NegInf else PosInf)"
| "float_div NaN c = NaN"

text \<open>\<open>x > c\<close>, \<open>x < c\<close>, \<open>c <= x\<close> and \<open>x <= c\<close> for a float \<open>x\<close> and a literal \<open>c\<close>.\<close>

fun float_gt :: "pyfloat \<Rightarrow> real \<Rightarrow> bool" where
  "float_gt (Finite x) c = (c < x)"
| "float_gt PosInf c = True"
| "float_gt NegInf c = False"
| "float_gt NaN c = False"

fun float_lt :: "pyfloat \<Rightarrow> real \<Rightarrow> bool" where
  "float_lt (Finite x) c = (x < c)"
| "float_lt PosInf c = False"
| "float_lt NegInf c = True"
| "float_lt NaN c = False"

fun float_ge :: "pyfloat \<Rightarrow> real \<Rightarrow> bool" where
  "float_ge (Finite x) c = (c \<le> x)"
| "float_ge PosInf c = True"
| "float_ge NegInf c = False"
| "float_ge NaN c = False"

fun float_le :: "pyfloat \<Rightarrow> real \<Rightarrow> bool" where
  "float_le (Finite x) c = (x \<le> c)"
| "float_le PosInf c = False"
| "float_le NegInf c = True"
| "float_le NaN c = False"

text \<open>
  \<open>get_clothing_recommendation\<close> on every float. The chained comparison
  \<open>20 <= temp_c <= 28\<close> is \<open>20 <= temp_c and temp_c <= 28\<close>.
\<close>

definition get_clothing_recommendation_float :: "int \<Rightarrow> pyfloat \<Rightarrow> string \<Rightarrow> string" where
  "get_clothing_recommendation_float weather_code temp unit =
     (let temp_c = (if unit = ''metric'' then temp
                    else float_div (float_mul (float_sub temp 32) 5) 9);
          condition = condition_of weather_code
      in if str_in ''rain'' condition \<or> str_in ''drizzle'' condition then clothing_waterproof
         else if str_in ''snow'' condition then clothing_heavy_coat
         else if str_in ''storm'' condition then clothing_stay_indoors
         else if float_gt temp_c 28 then clothing_light_fabrics
         else if float_ge temp_c 20 \<and> float_le temp_c 28 then clothing_tshirt
         else if float_ge temp_c 10 \<and> float_lt temp_c 20 then clothing_light_jacket
         else if float_lt temp_c 10 then clothing_warm_coat
         else clothing_default)"

section \<open>Fetch pipeline\<close>

text \<open>
  The three collaborators are external services reached over HTTP. A call is the three source
  lines \<open>requests.get\<close>, \<open>raise_for_status\<close> and \<open>json\<close>; its outcome is the exception it
  raises, with the text of the exception, or the decoded document. \<open>HTTPError\<close> is the
  exception of \<open>raise_for_status\<close>; \<open>RequestException\<close> stands for every other exception
  of the \<open>requests\<close> hierarchy. The documents are typed by the fields the program reads: a
  match of the geocoder, the current block of the forecast, the current block of the air
  quality.
\<close>

datatype 'a reply = HTTPError string | RequestException string | Json 'a

record geo_match =
  name :: string
  country_code :: "string option"
  latitude :: real
  longitude :: real
  timezone :: string

text \<open>\<open>results\<close> is \<open>None\<close> when the key is absent from the document.\<close>

record geo_json =
  results :: "geo_match list option"

record current_conditions =
  temperature_2m :: real
  relative_humidity_2m :: int
  precipitation :: real
  weather_code :: int
  wind_speed_10m :: real

record weather_json =
  weather_current :: current_conditions

record air_current =
  us_aqi :: int

record air_json =
  air_current :: air_current

text \<open>
  The requests: the geocoder is asked for a name (with \<open>count = 1\<close>), the forecast for
  latitude, longitude, timezone, temperature unit and wind speed unit, the air quality for
  latitude and longitude.
\<close>

record collaborators =
  geocoding :: "string \<Rightarrow> geo_json reply"
  forecast :: "real \<Rightarrow> real \<Rightarrow> string \<Rightarrow> string \<Rightarrow> string \<Rightarrow> weather_json reply"
  air_quality :: "real \<Rightarrow> real \<Rightarrow> air_json reply"

text \<open>What the page shows through \<open>st.error\<close> and \<open>st.info\<close>.\<close>

datatype notice = StError string | StInfo string

type_synonym fetched = "weather_json option \<times> air_json option \<times> geo_match option"

text \<open>
  \<open>get_weather_data\<close> returns its triple together with the notices it has shown. Both
  \<open>except\<close> clauses show their message and fall through to the last line, which returns
  \<open>(None, None, None)\<close>.
\<close>

definition get_weather_data :: "collaborators \<Rightarrow> string \<Rightarrow> string \<Rightarrow> fetched \<times> notice list" where
  "get_weather_data api city units =
     (case geocoding api city of
        HTTPError err \<Rightarrow> ((None, None, None), [StError (''HTTP error: '' @ err)])
      | RequestException e \<Rightarrow> ((None, None, None), [StError (''Error fetching data: '' @ e)])
      | Json geo_data \<Rightarrow>
          (case results geo_data of
             None \<Rightarrow>
               ((None, None, None), [StError (''City not found: '' @ city @ ''. Please try again.'')])
           | Some [] \<Rightarrow>
               ((None, None, None), [StError (''City not found: '' @ city @ ''. Please try again.'')])
           | Some (location # _) \<Rightarrow>
               (let lat = latitude location;
                    lon = longitude location;
                    tz = timezone location;
                    unit_temp = (if units = ''metric'' then ''celsius'' else ''fahrenheit'');
                    unit_wind = (if units = ''metric'' then ''kmh'' else ''mph'')
                in case forecast api lat lon tz unit_temp unit_wind of
                     HTTPError err \<Rightarrow> ((None, None, None), [StError (''HTTP error: '' @ err)])
                   | RequestException e \<Rightarrow>
                       ((None, None, None), [StError (''Error fetching data: '' @ e)])
                   | Json weather_data \<Rightarrow>
                       (case air_quality api lat lon of
                          HTTPError err \<Rightarrow>
                            ((None, None, None), [StError (''HTTP error: '' @ err)])
                        | RequestException e \<Rightarrow>
                            ((None, None, None), [StError (''Error fetching data: '' @ e)])
                        | Json air_data \<Rightarrow>
                            ((Some weather_data, Some air_data, Some location), [])))))"

section \<open>The fetch pipeline on the documents as they are decoded\<close>

text \<open>
  \<open>get_weather_data\<close> above takes the documents in the shape the services document. The
  source checks nothing but the presence of \<open>results\<close>, so here the same function is given
  on whatever \<open>response.json()\<close> can return: any JSON value, \<open>null\<close> being Python's \<open>None\<close>.
  An object is the list of its items, with one item for each key. A body that is not JSON
  makes \<open>response.json()\<close> raise the \<open>JSONDecodeError\<close> of \<open>requests\<close>, which is a
  \<open>RequestException\<close>.
\<close>

datatype json =
  JNull | JBool bool | JNum pyfloat | JStr string | JArr "json list" | JObj "(string \<times> json) list"

text \<open>The exceptions that no \<open>except\<close> clause of the source catches.\<close>

datatype exn = KeyError | TypeError | IndexError

text \<open>\<open>k in x\<close> for a string \<open>k\<close>: a key of a dict, an element of a list, a part of a string.\<close>

fun py_in :: "string \<Rightarrow> json \<Rightarrow> exn + bool" where
  "py_in k (JObj items) = Inr (map_of items k \<noteq> None)"
| "py_in k (JArr xs) = Inr (JStr k \<in> set xs)"
| "py_in k (JStr s) = Inr (str_in k s)"
| "py_in k JNull = Inl TypeError"
| "py_in k (JBool b) = Inl TypeError"
| "py_in k (JNum n) = Inl TypeError"

text \<open>\<open>x[k]\<close> for a string \<open>k\<close>: only a dict can be subscripted by a string.\<close>

fun py_getitem :: "json \<Rightarrow> string \<Rightarrow> exn + json" where
  "py_getitem (JObj items) k = (case map_of items k of None \<Rightarrow> Inl KeyError | Some v \<Rightarrow> Inr v)"
| "py_getitem (JArr xs) k = Inl TypeError"
| "py_getitem (JStr s) k = Inl TypeError"
| "py_getitem JNull k = Inl TypeError"
| "py_getitem (JBool b) k = Inl TypeError"
| "py_getitem (JNum n) k = Inl TypeError"

text \<open>\<open>len(x)\<close>; the source only asks whether it is zero.\<close>

fun py_len :: "json \<Rightarrow> exn + nat" where
  "py_len (JArr xs) = Inr (length xs)"
| "py_len (JObj items) = Inr (length items)"
| "py_len (JStr s) = Inr (length s)"
| "py_len JNull = Inl TypeError"
| "py_len (JBool b) = Inl TypeError"
| "py_len (JNum n) = Inl TypeError"

text \<open>
  \<open>x[0]\<close>: the first element of a list, the first character of a string; a decoded dict has
  string keys only, so the key \<open>0\<close> is missing.
\<close>

fun py_first :: "json \<Rightarrow> exn + json" where
  "py_first (JArr []) = Inl IndexError"
| "py_first (JArr (x # xs)) = Inr x"
| "py_first (JStr []) = Inl IndexError"
| "py_first (JStr (c # cs)) = Inr (JStr [c])"
| "py_first (JObj items) = Inl KeyError"
| "py_first JNull = Inl TypeError"
| "py_first (JBool b) = Inl TypeError"
| "py_first (JNum n) = Inl TypeError"

text \<open>An exception ends the function; otherwise the next statement runs on the value.\<close>

fun and_then :: "exn + 'a \<Rightarrow> ('a \<Rightarrow> exn + 'b) \<Rightarrow> exn + 'b" where
  "and_then (Inl e) f = Inl e"
| "and_then (Inr v) f = f v"

record raw_collaborators =
  raw_geocoding :: "string \<Rightarrow> json reply"
  raw_forecast :: "json \<Rightarrow> json \<Rightarrow> json \<Rightarrow> string \<Rightarrow> string \<Rightarrow> json reply"
  raw_air_quality :: "json \<Rightarrow> json \<Rightarrow> json reply"

text \<open>
  The result is the exception that leaves the function, or the returned triple with the
  notices shown. \<open>"results" not in geo_data or len(geo_data['results']) == 0\<close> evaluates its
  second operand only when the first is false.
\<close>

definition city_not_found_result :: "string \<Rightarrow> (json \<times> json \<times> json) \<times> notice list" where
  "city_not_found_result city =
     ((JNull, JNull, JNull), [StError (''City not found: '' @ city @ ''. Please try again.'')])"

definition after_geocoding ::
  "raw_collaborators \<Rightarrow> string \<Rightarrow> json \<Rightarrow> exn + (json \<times> json \<times> json) \<times> notice list" where
  "after_geocoding api units location =
     and_then (py_getitem location ''latitude'') (\<lambda>lat.
     and_then (py_getitem location ''longitude'') (\<lambda>lon.
     and_then (py_getitem location ''timezone'') (\<lambda>tz.
       (let unit_temp = (if units = ''metric'' then ''celsius'' else ''fahrenheit'');
            unit_wind = (if units = ''metric'' then ''kmh'' else ''mph'')
        in case raw_forecast api lat lon tz unit_temp unit_wind of
             HTTPError err \<Rightarrow> Inr ((JNull, JNull, JNull), [StError (''HTTP error: '' @ err)])
           | RequestException e \<Rightarrow>
               Inr ((JNull, JNull, JNull), [StError (''Error fetching data: '' @ e)])
           | Json weather_data \<Rightarrow>
               (case raw_air_quality api lat lon of
                  HTTPError err \<Rightarrow>
                    Inr ((JNull, JNull, JNull), [StError (''HTTP error: '' @ err)])
                | RequestException e \<Rightarrow>
                    Inr ((JNull, JNull, JNull), [StError (''Error fetching data: '' @ e)])
                | Json air_data \<Rightarrow> Inr ((weather_data, air_data, location), []))))))"

definition get_weather_data_raw ::
  "raw_collaborators \<Rightarrow> string \<Rightarrow> string \<Rightarrow> exn + (json \<times> json \<times> json) \<times> notice list" where
  "get_weather_data_raw api city units =
     (case raw_geocoding api city of
        HTTPError err \<Rightarrow> Inr ((JNull, JNull, JNull), [StError (''HTTP error: '' @ err)])
      | RequestException e \<Rightarrow>
          Inr ((JNull, JNull, JNull), [StError (''Error fetching data: '' @ e)])
      | Json geo_data \<Rightarrow>
          and_then (py_in ''results'' geo_data) (\<lambda>present.
            if \<not> present then Inr (city_not_found_result city)
            else
              and_then (py_getitem geo_data ''results'') (\<lambda>found.
              and_then (py_len found) (\<lambda>n.
                if n = 0 then Inr (city_not_found_result city)
                else
                  and_then (py_getitem geo_data ''results'') (\<lambda>found_again.
                  and_then (py_first found_again) (\<lambda>location.
                    after_geocoding api units location))))))"

subsection \<open>The documents of the services as JSON values\<close>

text \<open>
  The typed documents of \<open>get_weather_data\<close> written as the JSON values they stand for, and
  typed collaborators as collaborators that answer with these values. They serve to compare
  the two embeddings of the function.
\<close>

definition match_doc :: "geo_match \<Rightarrow> json" where
  "match_doc m = JObj ([(''name'', JStr (name m))]
     @ (case country_code m of None \<Rightarrow> [] | Some cc \<Rightarrow> [(''country_code'', JStr cc)])
     @ [(''latitude'', JNum (Finite (latitude m))), (''longitude'', JNum (Finite (longitude m))),
        (''timezone'', JStr (timezone m))])"

definition geo_doc :: "geo_json \<Rightarrow> json" where
  "geo_doc g = JObj (case results g of None \<Rightarrow> []
                     | Some ms \<Rightarrow> [(''results'', JArr (map match_doc ms))])"

definition weather_doc :: "weather_json \<Rightarrow> json" where
  "weather_doc w = JObj [(''current'', JObj
     [(''temperature_2m'', JNum (Finite (temperature_2m (weather_current w)))),
      (''relative_humidity_2m'', JNum (Finite (of_int (relative_humidity_2m (weather_current w))))),
      (''precipitation'', JNum (Finite (precipitation (weather_current w)))),
      (''weather_code'', JNum (Finite (of_int (weather_code (weather_current w))))),
      (''wind_speed_10m'', JNum (Finite (wind_speed_10m (weather_current w))))])]"

definition air_doc :: "air_json \<Rightarrow> json" where
  "air_doc a = JObj [(''current'', JObj [(''us_aqi'', JNum (Finite (of_int (us_aqi (air_current a)))))])]"

fun reply_doc :: "('a \<Rightarrow> json) \<Rightarrow> 'a reply \<Rightarrow> json reply" where
  "reply_doc f (HTTPError err) = HTTPError err"
| "reply_doc f (RequestException e) = RequestException e"
| "reply_doc f (Json d) = Json (f d)"

fun or_null :: "('a \<Rightarrow> json) \<Rightarrow> 'a option \<Rightarrow> json" where
  "or_null f None = JNull"
| "or_null f (Some d) = f d"

definition documents_of :: "collaborators \<Rightarrow> raw_collaborators" where
  "documents_of api =
     \<lparr>raw_geocoding = (\<lambda>c. reply_doc geo_doc (geocoding api c)),
      raw_forecast = (\<lambda>lat lon tz unit_temp unit_wind.
         case (lat, lon, tz) of
           (JNum (Finite x), JNum (Finite y), JStr z) \<Rightarrow>
             reply_doc weather_doc (forecast api x y z unit_temp unit_wind)
         | _ \<Rightarrow> RequestException []),
      raw_air_quality = (\<lambda>lat lon.
         case (lat, lon) of
           (JNum (Finite x), JNum (Finite y)) \<Rightarrow> reply_doc air_doc (air_quality api x y)
         | _ \<Rightarrow> RequestException [])\<rparr>"

section \<open>The page script and the session state\<close>

text \<open>
  \<open>st.session_state\<close>: a key that has not been stored yet is \<open>None\<close>.
\<close>

record session_state =
  saved_cities :: "string list option"
  city :: "string option"
  weather_data :: "weather_json option"
  air_data :: "air_json option"
  unit_symbol :: "string option"
  selected_unit :: "string option"
  location :: "geo_match option"

definition new_session :: session_state where
  "new_session = \<lparr>saved_cities = None, city = None, weather_data = None, air_data = None,
     unit_symbol = None, selected_unit = None, location = None\<rparr>"

text \<open>
  One run of the script is triggered by one interaction: the content of the text box, the
  button that was clicked (if any; a favourite button is identified by its key, the city it
  shows) and the unit chosen in the radio group.
\<close>

datatype button = SearchCity | FavoriteCity string

datatype unit_label = Celsius | Fahrenheit

record interaction =
  text_input :: string
  clicked :: "button option"
  radio :: unit_label

definition unit_options :: "unit_label \<Rightarrow> string" where
  "unit_options label = (case label of Celsius \<Rightarrow> ''metric'' | Fahrenheit \<Rightarrow> ''imperial'')"

definition degree_sign :: string where
  "degree_sign = [CHR 0xC2, CHR 0xB0]"

text \<open>The sidebar: default favourites, the search button, the favourite buttons, default city.\<close>

definition sidebar :: "interaction \<Rightarrow> session_state \<Rightarrow> session_state" where
  "sidebar ui s0 =
     (let s1 = (if saved_cities s0 = None
                then s0\<lparr>saved_cities := Some [''London'', ''New York'', ''Tokyo'']\<rparr> else s0);
          s2 = (if clicked ui = Some SearchCity then s1\<lparr>city := Some (text_input ui)\<rparr> else s1);
          s3 = foldl (\<lambda>s saved_city.
                        if clicked ui = Some (FavoriteCity saved_city)
                        then s\<lparr>city := Some saved_city\<rparr> else s)
                 s2 (case saved_cities s2 of None \<Rightarrow> [] | Some cs \<Rightarrow> cs)
      in if city s3 = None then s3\<lparr>city := Some ''Ghaziabad''\<rparr> else s3)"

text \<open>
  The main content area up to the end of the fetch. The three documents of a fetch that
  succeeded are dicts with at least one key, hence true in the test of the source;
  \<open>None\<close> is false. \<open>pop(0)\<close> is only reached on a list of at least five cities.
\<close>

definition main_content ::
  "collaborators \<Rightarrow> interaction \<Rightarrow> session_state \<Rightarrow> session_state \<times> notice list" where
  "main_content api ui s =
     (let selected = unit_options (radio ui);
          symbol = (if selected = ''metric'' then degree_sign @ ''C'' else degree_sign @ ''F'');
          current_city = (case city s of None \<Rightarrow> [] | Some c \<Rightarrow> c);
          saved = (case saved_cities s of None \<Rightarrow> [] | Some cs \<Rightarrow> cs)
      in if current_city \<noteq> [] then
           (case get_weather_data api current_city selected of
              ((Some w, Some a, Some l), shown) \<Rightarrow>
                (let s1 = s\<lparr>weather_data := Some w, air_data := Some a,
                             unit_symbol := Some symbol, selected_unit := Some selected,
                             location := Some l\<rparr>
                 in if current_city \<notin> set saved
                    then (s1\<lparr>saved_cities :=
                              Some ((if length saved \<ge> 5 then tl saved else saved) @ [current_city])\<rparr>,
                          shown)
                    else (s1, shown))
            | (_, shown) \<Rightarrow> (s, shown))
         else (s, [StInfo ''Please enter a city name in the sidebar.'']))"

definition run_script ::
  "collaborators \<Rightarrow> interaction \<Rightarrow> session_state \<Rightarrow> session_state \<times> notice list" where
  "run_script api ui s = main_content api ui (sidebar ui s)"

text \<open>A session is a sequence of runs, each with the replies its collaborators give then.\<close>

fun run_session :: "session_state \<Rightarrow> (collaborators \<times> interaction) list \<Rightarrow> session_state" where
  "run_session s [] = s"
| "run_session s ((api, ui) # rest) = run_session (fst (run_script api ui s)) rest"

text \<open>The recommendations tab, computed from the stored documents.\<close>

definition recommendations :: "weather_json \<Rightarrow> air_json \<Rightarrow> string \<Rightarrow> string \<times> string \<times> string" where
  "recommendations w a unit =
     (let condition_code = weather_code (weather_current w);
          temp = temperature_2m (weather_current w);
          aqi_level = fst (get_aqi_level (us_aqi (air_current a)))
      in (get_weather_mood condition_code temp unit,
          get_clothing_recommendation condition_code temp unit,
          get_activity_recommendation condition_code aqi_level))"

section \<open>Sample collaborators and interactions\<close>

text \<open>Concrete replies and interactions, on which the theorems below are instantiated.\<close>

definition sample_match :: "string \<Rightarrow> geo_match" where
  "sample_match c =
     \<lparr>name = c, country_code = None, latitude = 0, longitude = 0, timezone = ''GMT''\<rparr>"

definition sample_weather :: weather_json where
  "sample_weather = \<lparr>weather_current =
     \<lparr>temperature_2m = 15, relative_humidity_2m = 60, precipitation = 0, weather_code = 0,
      wind_speed_10m = 10\<rparr>\<rparr>"

definition sample_air :: air_json where
  "sample_air = \<lparr>air_current = \<lparr>us_aqi = 275\<rparr>\<rparr>"

text \<open>All three services answer; the geocoder knows every city but Atlantis.\<close>

definition online :: collaborators where
  "online =
     \<lparr>geocoding = (\<lambda>c. if c = ''Atlantis'' then Json \<lparr>results = None\<rparr>
                       else Json \<lparr>results = Some [sample_match c]\<rparr>),
      forecast = (\<lambda>lat lon tz unit_temp unit_wind. Json sample_weather),
      air_quality = (\<lambda>lat lon. Json sample_air)\<rparr>"

text \<open>The geocoder answers with an empty list of results.\<close>

definition empty_results :: collaborators where
  "empty_results = online\<lparr>geocoding := (\<lambda>c. Json \<lparr>results = Some []\<rparr>)\<rparr>"

definition search :: "string \<Rightarrow> interaction" where
  "search c = \<lparr>text_input = c, clicked = Some SearchCity, radio = Celsius\<rparr>"

definition favorite :: "string \<Rightarrow> interaction" where
  "favorite c = \<lparr>text_input = ''Ghaziabad'', clicked = Some (FavoriteCity c), radio = Celsius\<rparr>"

text \<open>Two searches in a new session fill the list of favourites.\<close>

definition busy_trace :: "(collaborators \<times> interaction) list" where
  "busy_trace = [(online, search ''Paris''), (online, search ''Rome'')]"

definition busy_session :: session_state where
  "busy_session = run_session new_session busy_trace"











section \<open>Evaluation rules and facts about the tables\<close>

lemmas str_eval = str_lower_def lower_char_def upper_char_def upper_letters_def
  lower_letters_def str_title_def

lemmas mood_defs = mood_indoor_reading_def mood_hot_chocolate_def mood_bright_breezy_def
  mood_crisp_air_def mood_soft_skies_def mood_blue_skies_def mood_default_def

lemmas clothing_defs = clothing_waterproof_def clothing_heavy_coat_def clothing_stay_indoors_def
  clothing_light_fabrics_def clothing_tshirt_def clothing_light_jacket_def
  clothing_warm_coat_def clothing_default_def

lemma WMO_CODES_dom:
  "dom WMO_CODES = {0, 1, 2, 3, 45, 48, 51, 53, 55, 56, 57, 61, 63, 65, 66, 67, 71, 73, 75, 77,
     80, 81, 82, 85, 86, 95, 96, 99}"
  by (simp add: WMO_CODES_def dom_map_of_conv_image_fst)

lemma condition_of_samples:
  "condition_of 0 = ''clear sky''" "condition_of 1 = ''mainly clear''"
  "condition_of 2 = ''partly cloudy''" "condition_of 3 = ''overcast''"
  "condition_of 45 = ''fog''" "condition_of 61 = ''slight rain''"
  "condition_of 71 = ''slight snow fall''" "condition_of 95 = ''thunderstorm''"
  "condition_of 51 = ''light drizzle''"
  "condition_of 7 = ''unknown''"
  by (simp_all add: condition_of_def dict_get_def WMO_CODES_def str_eval)

lemma str_in_sublist: "str_in sub s = sublist sub s"
  by (induction s) (auto simp: sublist_Cons_right)

lemma mainly_clear_is_clear: "str_in ''mainly clear'' s \<Longrightarrow> str_in ''clear'' s"
proof -
  assume "str_in ''mainly clear'' s"
  then have "sublist (''mainly '' @ ''clear'') s" by (simp add: str_in_sublist)
  then obtain ps ss where "s = ps @ (''mainly '' @ ''clear'') @ ss"
    unfolding sublist_def by blast
  then have "s = (ps @ ''mainly '') @ ''clear'' @ ss" by simp
  then have "sublist ''clear'' s" unfolding sublist_def by blast
  then show ?thesis by (simp add: str_in_sublist)
qed

lemma polluted_labels:
  "150 < aqi \<Longrightarrow> str_lower (fst (get_aqi_level aqi)) \<in> {''unhealthy'', ''very unhealthy'', ''hazardous''}"
  by (simp add: get_aqi_level_def str_eval)

lemma clean_labels:
  "aqi \<le> 150 \<Longrightarrow> str_lower (fst (get_aqi_level aqi)) \<notin> {''unhealthy'', ''very unhealthy'', ''hazardous''}"
  by (simp add: get_aqi_level_def str_eval)

lemma mood_distinct:
  "distinct [mood_indoor_reading, mood_hot_chocolate, mood_bright_breezy, mood_crisp_air,
     mood_soft_skies, mood_blue_skies, mood_default]"
  by (simp add: mood_defs)

lemma clothing_distinct:
  "distinct [clothing_waterproof, clothing_heavy_coat, clothing_stay_indoors,
     clothing_light_fabrics, clothing_tshirt, clothing_light_jacket, clothing_warm_coat,
     clothing_default]"
  by (simp add: clothing_defs)

section \<open>The classification of the air quality index\<close>

text \<open>
  C1. For every integer AQI value, \<open>get_aqi_level\<close> returns one of the six fixed pairs of
  label and colour, chosen by the ladder of inclusive upper bounds 50, 100, 150, 200, 300;
  each boundary value 50, 51, 100, 101, 150, 151, 200, 201, 300, 301 falls into the adjacent
  bucket.
\<close>

theorem get_aqi_level_ladder:
  "(v \<le> 50 \<longrightarrow> get_aqi_level v = (''Good'', ''green'')) \<and>
   (51 \<le> v \<and> v \<le> 100 \<longrightarrow> get_aqi_level v = (''Moderate'', ''yellow'')) \<and>
   (101 \<le> v \<and> v \<le> 150 \<longrightarrow> get_aqi_level v = (''Unhealthy (SG)'', ''orange'')) \<and>
   (151 \<le> v \<and> v \<le> 200 \<longrightarrow> get_aqi_level v = (''Unhealthy'', ''red'')) \<and>
   (201 \<le> v \<and> v \<le> 300 \<longrightarrow> get_aqi_level v = (''Very Unhealthy'', ''purple'')) \<and>
   (300 < v \<longrightarrow> get_aqi_level v = (''Hazardous'', ''maroon'')) \<and>
   get_aqi_level v \<in> {(''Good'', ''green''), (''Moderate'', ''yellow''),
      (''Unhealthy (SG)'', ''orange''), (''Unhealthy'', ''red''),
      (''Very Unhealthy'', ''purple''), (''Hazardous'', ''maroon'')}"
  by (simp add: get_aqi_level_def)

theorem get_aqi_level_ladder_witness:
  "get_aqi_level 50 = (''Good'', ''green'') \<and>
   get_aqi_level 51 = (''Moderate'', ''yellow'') \<and>
   get_aqi_level 100 = (''Moderate'', ''yellow'') \<and>
   get_aqi_level 101 = (''Unhealthy (SG)'', ''orange'') \<and>
   get_aqi_level 150 = (''Unhealthy (SG)'', ''orange'') \<and>
   get_aqi_level 151 = (''Unhealthy'', ''red'') \<and>
   get_aqi_level 200 = (''Unhealthy'', ''red'') \<and>
   get_aqi_level 201 = (''Very Unhealthy'', ''purple'') \<and>
   get_aqi_level 300 = (''Very Unhealthy'', ''purple'') \<and>
   get_aqi_level 301 = (''Hazardous'', ''maroon'')"
  using get_aqi_level_ladder [of 50] get_aqi_level_ladder [of 51]
    get_aqi_level_ladder [of 100] get_aqi_level_ladder [of 101]
    get_aqi_level_ladder [of 150] get_aqi_level_ladder [of 151]
    get_aqi_level_ladder [of 200] get_aqi_level_ladder [of 201]
    get_aqi_level_ladder [of 300] get_aqi_level_ladder [of 301]
  by simp

section \<open>The activity recommendation\<close>

text \<open>
  C2. In \<open>get_activity_recommendation\<close> the AQI level has priority over the weather: when
  the level is Unhealthy, Very Unhealthy or Hazardous (every AQI value above 150) the
  pollution message is returned whatever the weather code; otherwise the description
  decides, in the order rain, storm or drizzle, then snow, then clear, then cloudy, overcast
  or fog, then the generic message. An AQI of 275 is Very Unhealthy and gives the pollution
  message under a clear sky.
\<close>

theorem activity_aqi_priority:
  fixes level :: string and code aqi :: int and wd :: weather_json and ad :: air_json
    and u :: string
  defines "cond \<equiv> condition_of code"
  defines "by_weather \<equiv>
     (if str_in ''rain'' cond \<or> str_in ''storm'' cond \<or> str_in ''drizzle'' cond then activity_wet
      else if str_in ''snow'' cond then activity_snow
      else if str_in ''clear'' cond then activity_clear
      else if str_in ''cloudy'' cond \<or> str_in ''overcast'' cond \<or> str_in ''fog'' cond
        then activity_overcast
      else activity_default)"
  shows
  "(str_lower level \<in> {''unhealthy'', ''very unhealthy'', ''hazardous''} \<longrightarrow>
      get_activity_recommendation code level = activity_pollution (str_lower level)) \<and>
   (str_lower level \<notin> {''unhealthy'', ''very unhealthy'', ''hazardous''} \<longrightarrow>
      get_activity_recommendation code level = by_weather) \<and>
   (150 < aqi \<longrightarrow>
      get_activity_recommendation code (fst (get_aqi_level aqi)) =
        ''High pollution! ('' @ fst (get_aqi_level aqi) @ '') '' @ glyph_mask
          @ '' Best to stay indoors. Good day for study or indoor exercise.'') \<and>
   (aqi \<le> 150 \<longrightarrow> get_activity_recommendation code (fst (get_aqi_level aqi)) = by_weather) \<and>
   (150 < us_aqi (air_current ad) \<longrightarrow>
      snd (snd (recommendations wd ad u)) =
        ''High pollution! ('' @ fst (get_aqi_level (us_aqi (air_current ad))) @ '') '' @ glyph_mask
          @ '' Best to stay indoors. Good day for study or indoor exercise.'') \<and>
   get_aqi_level 275 = (''Very Unhealthy'', ''purple'') \<and>
   condition_of 0 = ''clear sky'' \<and>
   get_activity_recommendation 0 (fst (get_aqi_level 275)) =
     ''High pollution! (Very Unhealthy) '' @ glyph_mask
       @ '' Best to stay indoors. Good day for study or indoor exercise.''"
proof -
  have polluted: "str_lower lv \<in> {''unhealthy'', ''very unhealthy'', ''hazardous''} \<Longrightarrow>
      get_activity_recommendation k lv = activity_pollution (str_lower lv)" for k lv
    by (simp add: get_activity_recommendation_def Let_def)
  have label: "150 < n \<Longrightarrow> activity_pollution (str_lower (fst (get_aqi_level n))) =
        ''High pollution! ('' @ fst (get_aqi_level n) @ '') '' @ glyph_mask
          @ '' Best to stay indoors. Good day for study or indoor exercise.''" for n
    by (simp add: get_aqi_level_def activity_pollution_def str_eval)
  have high: "150 < n \<Longrightarrow> get_activity_recommendation k (fst (get_aqi_level n)) =
        ''High pollution! ('' @ fst (get_aqi_level n) @ '') '' @ glyph_mask
          @ '' Best to stay indoors. Good day for study or indoor exercise.''" for n k
    using polluted [OF polluted_labels, of n k] label [of n] by simp
  have clean: "str_lower lv \<notin> {''unhealthy'', ''very unhealthy'', ''hazardous''} \<Longrightarrow>
      get_activity_recommendation code lv = by_weather" for lv
    unfolding by_weather_def cond_def
    using mainly_clear_is_clear [of "condition_of code"]
    by (auto simp add: get_activity_recommendation_def Let_def)
  have low: "aqi \<le> 150 \<Longrightarrow> get_activity_recommendation code (fst (get_aqi_level aqi)) = by_weather"
    by (rule clean [OF clean_labels])
  have tab: "150 < us_aqi (air_current ad) \<Longrightarrow>
      snd (snd (recommendations wd ad u)) =
        ''High pollution! ('' @ fst (get_aqi_level (us_aqi (air_current ad))) @ '') '' @ glyph_mask
          @ '' Best to stay indoors. Good day for study or indoor exercise.''"
    using high [of "us_aqi (air_current ad)" "weather_code (weather_current wd)"]
    by (simp add: recommendations_def Let_def)
  have very: "get_aqi_level 275 = (''Very Unhealthy'', ''purple'')"
    by (simp add: get_aqi_level_def)
  have scenario: "get_activity_recommendation 0 (fst (get_aqi_level 275)) =
     ''High pollution! (Very Unhealthy) '' @ glyph_mask
       @ '' Best to stay indoors. Good day for study or indoor exercise.''"
    using high [of 275 0] very by simp
  show ?thesis
    apply (intro conjI impI)
    subgoal by (rule polluted)
    subgoal by (rule clean)
    subgoal by (rule high)
    subgoal by (rule low)
    subgoal by (rule tab)
    subgoal by (rule very)
    subgoal by (rule condition_of_samples(1))
    subgoal by (rule scenario)
    done
qed

theorem activity_aqi_priority_witness:
  "get_activity_recommendation 0 ''Very Unhealthy'' = activity_pollution ''very unhealthy'' \<and>
   get_activity_recommendation 1 (fst (get_aqi_level 275)) =
     ''High pollution! (Very Unhealthy) '' @ glyph_mask
       @ '' Best to stay indoors. Good day for study or indoor exercise.'' \<and>
   get_activity_recommendation 61 ''Good'' = activity_wet \<and>
   get_activity_recommendation 95 ''Good'' = activity_wet \<and>
   get_activity_recommendation 71 ''Moderate'' = activity_snow \<and>
   get_activity_recommendation 0 ''Unhealthy (SG)'' = activity_clear \<and>
   get_activity_recommendation 45 ''Good'' = activity_overcast \<and>
   get_activity_recommendation 7 ''Good'' = activity_default \<and>
   get_activity_recommendation 2 (fst (get_aqi_level 150)) = activity_overcast \<and>
   snd (snd (recommendations sample_weather sample_air ''metric'')) =
     ''High pollution! (Very Unhealthy) '' @ glyph_mask
       @ '' Best to stay indoors. Good day for study or indoor exercise.''"
  using activity_aqi_priority [where level = "''Very Unhealthy''" and code = 0 and aqi = 275
      and ad = sample_air and wd = sample_weather and u = "''metric''"]
    activity_aqi_priority [where level = "''Good''" and code = 2 and aqi = 150]
    activity_aqi_priority [where level = "''Very Unhealthy''" and code = 1 and aqi = 275]
    activity_aqi_priority [where level = "''Good''" and code = 61 and aqi = 275]
    activity_aqi_priority [where level = "''Good''" and code = 95 and aqi = 275]
    activity_aqi_priority [where level = "''Moderate''" and code = 71 and aqi = 275]
    activity_aqi_priority [where level = "''Unhealthy (SG)''" and code = 0 and aqi = 275]
    activity_aqi_priority [where level = "''Good''" and code = 45 and aqi = 275]
    activity_aqi_priority [where level = "''Good''" and code = 7 and aqi = 275]
  by (simp add: str_eval condition_of_samples sample_air_def)

section \<open>The mood\<close>

text \<open>
  C6. \<open>get_weather_mood\<close> is a chain in which the first rule that matches decides: the
  description contains rain, storm or drizzle (reading indoors); it contains snow (hot
  chocolate); the temperature in Celsius is above 30 (bright and breezy); it is below 10
  (crisp air); the description contains cloudy or overcast (soft skies); it contains clear
  (blue skies); otherwise the generic message.
\<close>

theorem get_weather_mood_chain:
  fixes temp :: real and unit :: string and code :: int
  defines "temp_c \<equiv> (if unit = ''metric'' then temp else (temp - 32) * 5 / 9)"
  defines "cond \<equiv> condition_of code"
  defines "wet \<equiv> str_in ''rain'' cond \<or> str_in ''storm'' cond \<or> str_in ''drizzle'' cond"
  shows
  "(wet \<longrightarrow> get_weather_mood code temp unit = mood_indoor_reading) \<and>
   (\<not> wet \<and> str_in ''snow'' cond \<longrightarrow> get_weather_mood code temp unit = mood_hot_chocolate) \<and>
   (\<not> wet \<and> \<not> str_in ''snow'' cond \<and> temp_c > 30 \<longrightarrow>
      get_weather_mood code temp unit = mood_bright_breezy) \<and>
   (\<not> wet \<and> \<not> str_in ''snow'' cond \<and> \<not> temp_c > 30 \<and> temp_c < 10 \<longrightarrow>
      get_weather_mood code temp unit = mood_crisp_air) \<and>
   (\<not> wet \<and> \<not> str_in ''snow'' cond \<and> \<not> temp_c > 30 \<and> \<not> temp_c < 10 \<and>
      (str_in ''cloudy'' cond \<or> str_in ''overcast'' cond) \<longrightarrow>
      get_weather_mood code temp unit = mood_soft_skies) \<and>
   (\<not> wet \<and> \<not> str_in ''snow'' cond \<and> \<not> temp_c > 30 \<and> \<not> temp_c < 10 \<and>
      \<not> (str_in ''cloudy'' cond \<or> str_in ''overcast'' cond) \<and> str_in ''clear'' cond \<longrightarrow>
      get_weather_mood code temp unit = mood_blue_skies) \<and>
   (\<not> wet \<and> \<not> str_in ''snow'' cond \<and> \<not> temp_c > 30 \<and> \<not> temp_c < 10 \<and>
      \<not> (str_in ''cloudy'' cond \<or> str_in ''overcast'' cond) \<and> \<not> str_in ''clear'' cond \<longrightarrow>
      get_weather_mood code temp unit = mood_default)"
  unfolding temp_c_def cond_def wet_def
  by (simp add: get_weather_mood_def Let_def)

theorem get_weather_mood_chain_witness:
  "get_weather_mood 61 15 ''metric'' = mood_indoor_reading \<and>
   get_weather_mood 95 35 ''metric'' = mood_indoor_reading \<and>
   get_weather_mood 51 5 ''metric'' = mood_indoor_reading \<and>
   get_weather_mood 71 35 ''metric'' = mood_hot_chocolate \<and>
   get_weather_mood 3 31 ''metric'' = mood_bright_breezy \<and>
   get_weather_mood 0 41 ''imperial'' = mood_crisp_air \<and>
   get_weather_mood 3 20 ''metric'' = mood_soft_skies \<and>
   get_weather_mood 2 68 ''imperial'' = mood_soft_skies \<and>
   get_weather_mood 1 20 ''metric'' = mood_blue_skies \<and>
   get_weather_mood 45 20 ''metric'' = mood_default"
  using get_weather_mood_chain [where code = 61 and unit = "''metric''" and temp = 15]
    get_weather_mood_chain [where code = 95 and unit = "''metric''" and temp = 35]
    get_weather_mood_chain [where code = 51 and unit = "''metric''" and temp = 5]
    get_weather_mood_chain [where code = 71 and unit = "''metric''" and temp = 35]
    get_weather_mood_chain [where code = 3 and unit = "''metric''" and temp = 31]
    get_weather_mood_chain [where code = 0 and unit = "''imperial''" and temp = 41]
    get_weather_mood_chain [where code = 3 and unit = "''metric''" and temp = 20]
    get_weather_mood_chain [where code = 2 and unit = "''imperial''" and temp = 68]
    get_weather_mood_chain [where code = 1 and unit = "''metric''" and temp = 20]
    get_weather_mood_chain [where code = 45 and unit = "''metric''" and temp = 20]
  by (simp add: condition_of_samples)

section \<open>The clothing recommendation\<close>

text \<open>
  C7. \<open>get_clothing_recommendation\<close> is a chain in which the first rule that matches
  decides: the description contains rain or drizzle (waterproof); snow (heavy coat); storm
  (stay indoors); then the bands of the temperature in Celsius: above 28 (light fabrics),
  20 to 28 (t-shirt), 10 to 20 (light jacket), below 10 (warm coat); otherwise the generic
  message. For weather code 61 (slight rain) at 15 degrees Celsius the clothing is the
  waterproof message and the mood is the indoor reading message.
\<close>

theorem get_clothing_recommendation_chain:
  fixes temp :: real and unit :: string and code :: int
  defines "temp_c \<equiv> (if unit = ''metric'' then temp else (temp - 32) * 5 / 9)"
  defines "cond \<equiv> condition_of code"
  defines "dry \<equiv> \<not> (str_in ''rain'' cond \<or> str_in ''drizzle'' cond) \<and> \<not> str_in ''snow'' cond
                   \<and> \<not> str_in ''storm'' cond"
  shows
  "(str_in ''rain'' cond \<or> str_in ''drizzle'' cond \<longrightarrow>
      get_clothing_recommendation code temp unit = clothing_waterproof) \<and>
   (\<not> (str_in ''rain'' cond \<or> str_in ''drizzle'' cond) \<and> str_in ''snow'' cond \<longrightarrow>
      get_clothing_recommendation code temp unit = clothing_heavy_coat) \<and>
   (\<not> (str_in ''rain'' cond \<or> str_in ''drizzle'' cond) \<and> \<not> str_in ''snow'' cond
      \<and> str_in ''storm'' cond \<longrightarrow>
      get_clothing_recommendation code temp unit = clothing_stay_indoors) \<and>
   (dry \<and> temp_c > 28 \<longrightarrow> get_clothing_recommendation code temp unit = clothing_light_fabrics) \<and>
   (dry \<and> 20 \<le> temp_c \<and> temp_c \<le> 28 \<longrightarrow>
      get_clothing_recommendation code temp unit = clothing_tshirt) \<and>
   (dry \<and> 10 \<le> temp_c \<and> temp_c < 20 \<longrightarrow>
      get_clothing_recommendation code temp unit = clothing_light_jacket) \<and>
   (dry \<and> temp_c < 10 \<longrightarrow> get_clothing_recommendation code temp unit = clothing_warm_coat) \<and>
   (dry \<longrightarrow>
      get_clothing_recommendation code temp unit =
        (if temp_c > 28 then clothing_light_fabrics
         else if 20 \<le> temp_c \<and> temp_c \<le> 28 then clothing_tshirt
         else if 10 \<le> temp_c \<and> temp_c < 20 then clothing_light_jacket
         else if temp_c < 10 then clothing_warm_coat
         else clothing_default)) \<and>
   condition_of 61 = ''slight rain'' \<and>
   get_clothing_recommendation 61 15 ''metric'' = clothing_waterproof \<and>
   get_weather_mood 61 15 ''metric'' = mood_indoor_reading"
  unfolding temp_c_def cond_def dry_def
  by (auto simp add: get_clothing_recommendation_def get_weather_mood_def Let_def
      condition_of_samples)

theorem get_clothing_recommendation_chain_witness:
  "get_clothing_recommendation 61 15 ''metric'' = clothing_waterproof \<and>
   get_clothing_recommendation 51 30 ''metric'' = clothing_waterproof \<and>
   get_clothing_recommendation 71 30 ''metric'' = clothing_heavy_coat \<and>
   get_clothing_recommendation 95 30 ''metric'' = clothing_stay_indoors \<and>
   get_clothing_recommendation 0 29 ''metric'' = clothing_light_fabrics \<and>
   get_clothing_recommendation 0 28 ''metric'' = clothing_tshirt \<and>
   get_clothing_recommendation 0 68 ''imperial'' = clothing_tshirt \<and>
   get_clothing_recommendation 0 10 ''metric'' = clothing_light_jacket \<and>
   get_clothing_recommendation 0 9 ''metric'' = clothing_warm_coat"
  using get_clothing_recommendation_chain [where code = 61 and unit = "''metric''" and temp = 15]
    get_clothing_recommendation_chain [where code = 51 and unit = "''metric''" and temp = 30]
    get_clothing_recommendation_chain [where code = 71 and unit = "''metric''" and temp = 30]
    get_clothing_recommendation_chain [where code = 95 and unit = "''metric''" and temp = 30]
    get_clothing_recommendation_chain [where code = 0 and unit = "''metric''" and temp = 29]
    get_clothing_recommendation_chain [where code = 0 and unit = "''metric''" and temp = 28]
    get_clothing_recommendation_chain [where code = 0 and unit = "''imperial''" and temp = 68]
    get_clothing_recommendation_chain [where code = 0 and unit = "''metric''" and temp = 10]
    get_clothing_recommendation_chain [where code = 0 and unit = "''metric''" and temp = 9]
  by (simp add: condition_of_samples)

subsection \<open>The last return\<close>

lemma to_celsius_float_nan:
  "float_div (float_mul (float_sub temp 32) 5) 9 = NaN \<longleftrightarrow> temp = NaN"
  by (cases temp) simp_all

lemma float_bands_cover:
  "x \<noteq> NaN \<Longrightarrow>
   float_gt x 28 \<or> (float_ge x 20 \<and> float_le x 28) \<or> (float_ge x 10 \<and> float_lt x 20) \<or> float_lt x 10"
  by (cases x) auto

lemma float_bands_exclusive:
  "\<not> (float_gt x 28 \<and> float_ge x 20 \<and> float_le x 28)"
  "\<not> (float_gt x 28 \<and> float_ge x 10 \<and> float_lt x 20)"
  "\<not> (float_gt x 28 \<and> float_lt x 10)"
  "\<not> ((float_ge x 20 \<and> float_le x 28) \<and> float_ge x 10 \<and> float_lt x 20)"
  "\<not> ((float_ge x 20 \<and> float_le x 28) \<and> float_lt x 10)"
  "\<not> ((float_ge x 10 \<and> float_lt x 20) \<and> float_lt x 10)"
  by (cases x; simp)+

lemma clothing_float_on_numbers:
  "get_clothing_recommendation_float code (Finite t) unit = get_clothing_recommendation code t unit"
  by (simp add: get_clothing_recommendation_float_def get_clothing_recommendation_def Let_def)

lemma float_no_band:
  "\<not> float_gt x 28 \<and> \<not> (float_ge x 20 \<and> float_le x 28) \<and> \<not> (float_ge x 10 \<and> float_lt x 20)
     \<and> \<not> float_lt x 10 \<longleftrightarrow> x = NaN"
  by (cases x) auto

lemma float_band_chain:
  "x \<noteq> NaN \<Longrightarrow>
   (if float_gt x 28 then a
    else if float_ge x 20 \<and> float_le x 28 then b
    else if float_ge x 10 \<and> float_lt x 20 then c
    else if float_lt x 10 then d else e) =
   (if float_gt x 28 then a else if float_ge x 20 then b else if float_ge x 10 then c else d)"
  by (cases x) auto

lemma chain_last:
  assumes "e \<notin> {m1, m2, m3, m4, m5, m6, m7}"
  shows "(if A then m1 else if B then m2 else if C then m3 else if D then m4
          else if E then m5 else if F then m6 else if G then m7 else e) = e
         \<longleftrightarrow> \<not> A \<and> \<not> B \<and> \<not> C \<and> \<not> D \<and> \<not> E \<and> \<not> F \<and> \<not> G"
  using assms by auto

text \<open>
  C10. The four temperature bands of \<open>get_clothing_recommendation\<close> cover every float other
  than \<open>nan\<close> (the numbers and the two infinities) and exclude one another. So for a weather
  code whose description contains none of rain, drizzle, snow and storm, and every
  temperature other than \<open>nan\<close>, one of the four band messages is returned, and the generic
  last message is returned when, and only when, the temperature is \<open>nan\<close> and the
  description is such a one. On the numbers the function is the one on the reals above.
\<close>

theorem clothing_default_only_on_nan:
  fixes temp :: pyfloat and t :: real and unit :: string and code :: int
  defines "temp_c \<equiv> (if unit = ''metric'' then temp
                        else float_div (float_mul (float_sub temp 32) 5) 9)"
  defines "cond \<equiv> condition_of code"
  defines "dry \<equiv> \<not> str_in ''rain'' cond \<and> \<not> str_in ''drizzle'' cond \<and> \<not> str_in ''snow'' cond
                   \<and> \<not> str_in ''storm'' cond"
  defines "result \<equiv> get_clothing_recommendation_float code temp unit"
  shows
  "(temp \<noteq> NaN \<longrightarrow>
      float_gt temp_c 28 \<or> (float_ge temp_c 20 \<and> float_le temp_c 28)
        \<or> (float_ge temp_c 10 \<and> float_lt temp_c 20) \<or> float_lt temp_c 10) \<and>
   \<not> (float_gt temp_c 28 \<and> float_ge temp_c 20 \<and> float_le temp_c 28) \<and>
   \<not> (float_gt temp_c 28 \<and> float_ge temp_c 10 \<and> float_lt temp_c 20) \<and>
   \<not> (float_gt temp_c 28 \<and> float_lt temp_c 10) \<and>
   \<not> ((float_ge temp_c 20 \<and> float_le temp_c 28) \<and> float_ge temp_c 10 \<and> float_lt temp_c 20) \<and>
   \<not> ((float_ge temp_c 20 \<and> float_le temp_c 28) \<and> float_lt temp_c 10) \<and>
   \<not> ((float_ge temp_c 10 \<and> float_lt temp_c 20) \<and> float_lt temp_c 10) \<and>
   (temp \<noteq> NaN \<and> dry \<longrightarrow>
      result =
        (if float_gt temp_c 28 then clothing_light_fabrics
         else if float_ge temp_c 20 then clothing_tshirt
         else if float_ge temp_c 10 then clothing_light_jacket
         else clothing_warm_coat) \<and>
      result \<in> {clothing_light_fabrics, clothing_tshirt, clothing_light_jacket, clothing_warm_coat}) \<and>
   (temp \<noteq> NaN \<longrightarrow> result \<noteq> clothing_default) \<and>
   (result = clothing_default \<longleftrightarrow> temp = NaN \<and> dry) \<and>
   clothing_default = ''Check the conditions and dress accordingly.'' \<and>
   get_clothing_recommendation_float code (Finite t) unit = get_clothing_recommendation code t unit"
proof -
  have nan: "temp_c = NaN \<longleftrightarrow> temp = NaN"
    by (simp add: temp_c_def to_celsius_float_nan)
  have others: "clothing_default \<notin> {clothing_waterproof, clothing_heavy_coat,
      clothing_stay_indoors, clothing_light_fabrics, clothing_tshirt, clothing_light_jacket,
      clothing_warm_coat}"
    using clothing_distinct by auto
  have unfolded: "result =
      (if str_in ''rain'' cond \<or> str_in ''drizzle'' cond then clothing_waterproof
       else if str_in ''snow'' cond then clothing_heavy_coat
       else if str_in ''storm'' cond then clothing_stay_indoors
       else if float_gt temp_c 28 then clothing_light_fabrics
       else if float_ge temp_c 20 \<and> float_le temp_c 28 then clothing_tshirt
       else if float_ge temp_c 10 \<and> float_lt temp_c 20 then clothing_light_jacket
       else if float_lt temp_c 10 then clothing_warm_coat
       else clothing_default)"
    by (simp only: result_def get_clothing_recommendation_float_def Let_def temp_c_def cond_def)
  have cover: "float_gt temp_c 28 \<or> (float_ge temp_c 20 \<and> float_le temp_c 28)
        \<or> (float_ge temp_c 10 \<and> float_lt temp_c 20) \<or> float_lt temp_c 10" if "temp \<noteq> NaN"
  proof -
    from that have "temp_c \<noteq> NaN" using nan by blast
    then show ?thesis by (rule float_bands_cover)
  qed
  have bands: "result =
        (if float_gt temp_c 28 then clothing_light_fabrics
         else if float_ge temp_c 20 then clothing_tshirt
         else if float_ge temp_c 10 then clothing_light_jacket
         else clothing_warm_coat)" if "temp \<noteq> NaN \<and> dry"
  proof -
    from that have n: "temp_c \<noteq> NaN" using nan by blast
    from that have d: "\<not> (str_in ''rain'' cond \<or> str_in ''drizzle'' cond)"
      "\<not> str_in ''snow'' cond" "\<not> str_in ''storm'' cond"
      unfolding dry_def by blast+
    have "result =
      (if float_gt temp_c 28 then clothing_light_fabrics
       else if float_ge temp_c 20 \<and> float_le temp_c 28 then clothing_tshirt
       else if float_ge temp_c 10 \<and> float_lt temp_c 20 then clothing_light_jacket
       else if float_lt temp_c 10 then clothing_warm_coat
       else clothing_default)"
      by (simp only: unfolded d if_False)
    then show ?thesis by (simp only: float_band_chain [OF n])
  qed
  have member: "result \<in> {clothing_light_fabrics, clothing_tshirt, clothing_light_jacket,
      clothing_warm_coat}" if "temp \<noteq> NaN \<and> dry"
    by (simp add: bands [OF that])
  have iff: "result = clothing_default \<longleftrightarrow> temp = NaN \<and> dry"
  proof -
    have "result = clothing_default \<longleftrightarrow>
        \<not> (str_in ''rain'' cond \<or> str_in ''drizzle'' cond) \<and> \<not> str_in ''snow'' cond
        \<and> \<not> str_in ''storm'' cond \<and> \<not> float_gt temp_c 28
        \<and> \<not> (float_ge temp_c 20 \<and> float_le temp_c 28)
        \<and> \<not> (float_ge temp_c 10 \<and> float_lt temp_c 20) \<and> \<not> float_lt temp_c 10"
      unfolding unfolded by (rule chain_last [OF others])
    also have "\<dots> \<longleftrightarrow> dry \<and> temp_c = NaN"
      unfolding dry_def using float_no_band [of temp_c] by blast
    finally show ?thesis using nan by blast
  qed
  have never: "result \<noteq> clothing_default" if "temp \<noteq> NaN"
    using iff that by blast
  show ?thesis
    apply (intro conjI impI)
    subgoal by (rule cover)
    subgoal by (rule float_bands_exclusive)
    subgoal by (rule float_bands_exclusive)
    subgoal by (rule float_bands_exclusive)
    subgoal by (rule float_bands_exclusive)
    subgoal by (rule float_bands_exclusive)
    subgoal by (rule float_bands_exclusive)
    subgoal by (rule bands)
    subgoal by (rule member)
    subgoal by (rule never)
    subgoal by (rule iff)
    subgoal by (rule clothing_default_def)
    subgoal by (rule clothing_float_on_numbers)
    done
qed

theorem clothing_default_only_on_nan_witness:
  "get_clothing_recommendation_float 0 (Finite 35) ''metric'' = clothing_light_fabrics \<and>
   get_clothing_recommendation_float 2 (Finite 28) ''metric'' = clothing_tshirt \<and>
   get_clothing_recommendation_float 45 (Finite (39 / 2)) ''metric'' = clothing_light_jacket \<and>
   get_clothing_recommendation_float 0 (Finite 50) ''imperial'' = clothing_light_jacket \<and>
   get_clothing_recommendation_float 7 (Finite (- 40)) ''imperial'' = clothing_warm_coat \<and>
   get_clothing_recommendation_float 1 PosInf ''imperial'' = clothing_light_fabrics \<and>
   get_clothing_recommendation_float 3 NegInf ''metric'' = clothing_warm_coat \<and>
   get_clothing_recommendation_float 61 NaN ''metric'' \<noteq> clothing_default \<and>
   get_clothing_recommendation_float 0 NaN ''metric'' = clothing_default"
  using clothing_default_only_on_nan [where code = 0 and unit = "''metric''" and temp = "Finite 35"
      and t = 35]
    clothing_default_only_on_nan [where code = 2 and unit = "''metric''" and temp = "Finite 28" and t = 0]
    clothing_default_only_on_nan [where code = 45 and unit = "''metric''" and temp = "Finite (39 / 2)" and t = 0]
    clothing_default_only_on_nan [where code = 0 and unit = "''imperial''" and temp = "Finite 50" and t = 0]
    clothing_default_only_on_nan [where code = 7 and unit = "''imperial''" and temp = "Finite (- 40)" and t = 0]
    clothing_default_only_on_nan [where code = 1 and unit = "''imperial''" and temp = PosInf and t = 0]
    clothing_default_only_on_nan [where code = 3 and unit = "''metric''" and temp = NegInf and t = 0]
    clothing_default_only_on_nan [where code = 61 and unit = "''metric''" and temp = NaN and t = 0]
    clothing_default_only_on_nan [where code = 0 and unit = "''metric''" and temp = NaN and t = 0]
  by (simp add: condition_of_samples)

text \<open>
  The last return is reached: under a clear sky (code 0) a temperature \<open>nan\<close> fails all four
  tests and gives the generic message, in both units.
\<close>

theorem clothing_default_on_nan_counterexample:
  "get_clothing_recommendation_float 0 NaN ''metric'' = ''Check the conditions and dress accordingly.'' \<and>
   get_clothing_recommendation_float 0 NaN ''imperial'' = clothing_default \<and>
   condition_of 0 = ''clear sky'' \<and>
   \<not> str_in ''rain'' (condition_of 0) \<and> \<not> str_in ''drizzle'' (condition_of 0) \<and>
   \<not> str_in ''snow'' (condition_of 0) \<and> \<not> str_in ''storm'' (condition_of 0)"
  by (simp add: get_clothing_recommendation_float_def Let_def condition_of_samples
      clothing_default_def)

section \<open>Unknown weather codes\<close>

text \<open>
  C8. For every weather code that is not a key of \<open>WMO_CODES\<close>, the lookup used for
  display gives the description Unknown and the question-mark icon.
\<close>

theorem weather_display_unknown:
  "code \<notin> dom WMO_CODES \<longrightarrow> weather_display code = (''Unknown'', glyph_question)"
proof
  assume "code \<notin> dom WMO_CODES"
  then have absent: "WMO_CODES code = None"
    by (simp only: domIff not_not)
  show "weather_display code = (''Unknown'', glyph_question)"
    unfolding weather_display_def dict_get_def
    by (simp only: absent option.case)
qed

theorem weather_display_unknown_witness:
  "(4::int) \<notin> dom WMO_CODES \<and> weather_display 4 = (''Unknown'', [CHR 0xE2, CHR 0x9D, CHR 0x93]) \<and>
   (-1::int) \<notin> dom WMO_CODES \<and> weather_display (-1) = (''Unknown'', [CHR 0xE2, CHR 0x9D, CHR 0x93]) \<and>
   (100::int) \<notin> dom WMO_CODES \<and> weather_display 100 = (''Unknown'', [CHR 0xE2, CHR 0x9D, CHR 0x93])"
  using weather_display_unknown [of 4] weather_display_unknown [of "-1"]
    weather_display_unknown [of 100]
  by (simp add: WMO_CODES_dom glyph_question_def)

section \<open>Normalisation of the temperature\<close>

text \<open>
  C5. In \<open>get_weather_mood\<close> and in \<open>get_clothing_recommendation\<close> an imperial temperature
  is converted by \<open>(f - 32) * 5 / 9\<close> before any threshold is compared, and a metric
  temperature is compared as it is. 86 degrees Fahrenheit is exactly 30 degrees Celsius,
  and since the comparison is the strict \<open>temp_c > 30\<close>, 86 degrees Fahrenheit never gives
  the bright and breezy message.
\<close>

theorem celsius_normalisation:
  fixes f t :: real and code :: int
  defines "cond \<equiv> condition_of code"
  shows
  "get_weather_mood code f ''imperial'' = get_weather_mood code ((f - 32) * 5 / 9) ''metric'' \<and>
   get_clothing_recommendation code f ''imperial'' =
     get_clothing_recommendation code ((f - 32) * 5 / 9) ''metric'' \<and>
   (\<not> (str_in ''rain'' cond \<or> str_in ''storm'' cond \<or> str_in ''drizzle'' cond)
      \<and> \<not> str_in ''snow'' cond \<longrightarrow>
      (get_weather_mood code t ''metric'' = mood_bright_breezy \<longleftrightarrow> t > 30) \<and>
      (get_weather_mood code t ''metric'' = mood_crisp_air \<longleftrightarrow> t < 10) \<and>
      (get_weather_mood code f ''imperial'' = mood_bright_breezy \<longleftrightarrow> (f - 32) * 5 / 9 > 30) \<and>
      (get_weather_mood code f ''imperial'' = mood_crisp_air \<longleftrightarrow> (f - 32) * 5 / 9 < 10)) \<and>
   (\<not> (str_in ''rain'' cond \<or> str_in ''drizzle'' cond) \<and> \<not> str_in ''snow'' cond
      \<and> \<not> str_in ''storm'' cond \<longrightarrow>
      (get_clothing_recommendation code t ''metric'' = clothing_light_fabrics \<longleftrightarrow> t > 28) \<and>
      (get_clothing_recommendation code t ''metric'' = clothing_warm_coat \<longleftrightarrow> t < 10) \<and>
      (get_clothing_recommendation code f ''imperial'' = clothing_light_fabrics
         \<longleftrightarrow> (f - 32) * 5 / 9 > 28) \<and>
      (get_clothing_recommendation code f ''imperial'' = clothing_warm_coat
         \<longleftrightarrow> (f - 32) * 5 / 9 < 10)) \<and>
   (86 - 32) * 5 / 9 = (30 :: real) \<and>
   get_weather_mood code 86 ''imperial'' = get_weather_mood code 30 ''metric'' \<and>
   get_weather_mood code 86 ''imperial'' \<noteq> mood_bright_breezy"
proof -
  have conv: "get_weather_mood code x ''imperial'' = get_weather_mood code ((x - 32) * 5 / 9) ''metric''"
    for x :: real
    by (simp add: get_weather_mood_def)
  have conv': "get_clothing_recommendation code x ''imperial'' =
      get_clothing_recommendation code ((x - 32) * 5 / 9) ''metric''" for x :: real
    by (simp add: get_clothing_recommendation_def)
  have md: "mood_bright_breezy \<notin> {mood_indoor_reading, mood_hot_chocolate, mood_crisp_air,
      mood_soft_skies, mood_blue_skies, mood_default}"
    "mood_crisp_air \<notin> {mood_indoor_reading, mood_hot_chocolate, mood_bright_breezy,
      mood_soft_skies, mood_blue_skies, mood_default}"
    using mood_distinct by auto
  have cd: "clothing_light_fabrics \<notin> {clothing_tshirt, clothing_light_jacket, clothing_warm_coat,
      clothing_default}"
    "clothing_warm_coat \<notin> {clothing_light_fabrics, clothing_tshirt, clothing_light_jacket,
      clothing_default}"
    using clothing_distinct by auto
  have mood_metric: "\<not> (str_in ''rain'' cond \<or> str_in ''storm'' cond \<or> str_in ''drizzle'' cond)
      \<and> \<not> str_in ''snow'' cond \<Longrightarrow>
      (get_weather_mood code x ''metric'' = mood_bright_breezy \<longleftrightarrow> x > 30) \<and>
      (get_weather_mood code x ''metric'' = mood_crisp_air \<longleftrightarrow> x < 10)" for x :: real
    using md unfolding cond_def by (auto simp add: get_weather_mood_def Let_def)
  have cloth_metric: "\<not> (str_in ''rain'' cond \<or> str_in ''drizzle'' cond) \<and> \<not> str_in ''snow'' cond
      \<and> \<not> str_in ''storm'' cond \<Longrightarrow>
      (get_clothing_recommendation code x ''metric'' = clothing_light_fabrics \<longleftrightarrow> x > 28) \<and>
      (get_clothing_recommendation code x ''metric'' = clothing_warm_coat \<longleftrightarrow> x < 10)"
    for x :: real
    using cd unfolding cond_def by (auto simp add: get_clothing_recommendation_def Let_def)
  have e86: "(86 - 32) * 5 / 9 = (30 :: real)" by simp
  have m86: "get_weather_mood code 86 ''imperial'' = get_weather_mood code 30 ''metric''"
    using conv [of 86] by simp
  have n86: "get_weather_mood code 30 ''metric'' \<noteq> mood_bright_breezy"
    using md(1) by (auto simp add: get_weather_mood_def Let_def)
  show ?thesis
    apply (intro conjI impI)
    subgoal by (rule conv)
    subgoal by (rule conv')
    subgoal using mood_metric [of t] by blast
    subgoal using mood_metric [of t] by blast
    subgoal using mood_metric [of "(f - 32) * 5 / 9"] conv [of f] by simp
    subgoal using mood_metric [of "(f - 32) * 5 / 9"] conv [of f] by simp
    subgoal using cloth_metric [of t] by blast
    subgoal using cloth_metric [of t] by blast
    subgoal using cloth_metric [of "(f - 32) * 5 / 9"] conv' [of f] by simp
    subgoal using cloth_metric [of "(f - 32) * 5 / 9"] conv' [of f] by simp
    subgoal by (rule e86)
    subgoal by (rule m86)
    subgoal using m86 n86 by simp
    done
qed

theorem celsius_normalisation_witness:
  "get_weather_mood 0 86 ''imperial'' \<noteq> mood_bright_breezy \<and>
   get_weather_mood 0 87 ''imperial'' = mood_bright_breezy \<and>
   get_weather_mood 0 31 ''metric'' = mood_bright_breezy \<and>
   get_weather_mood 3 49 ''imperial'' = mood_crisp_air \<and>
   get_weather_mood 3 49 ''metric'' \<noteq> mood_crisp_air \<and>
   get_clothing_recommendation 0 83 ''imperial'' = clothing_light_fabrics \<and>
   get_clothing_recommendation 0 83 ''metric'' = clothing_light_fabrics \<and>
   get_clothing_recommendation 0 49 ''imperial'' = clothing_warm_coat \<and>
   get_clothing_recommendation 0 49 ''metric'' = clothing_light_fabrics"
  using celsius_normalisation [where code = 0 and f = 86 and t = 31]
    celsius_normalisation [where code = 0 and f = 87 and t = 31]
    celsius_normalisation [where code = 3 and f = 49 and t = 49]
    celsius_normalisation [where code = 0 and f = 83 and t = 83]
    celsius_normalisation [where code = 0 and f = 49 and t = 49]
  by (auto simp add: condition_of_samples)

section \<open>Facts about the page script\<close>

lemma favourite_buttons_keep:
  "saved_cities (foldl (\<lambda>s saved_city. if clicked ui = Some (FavoriteCity saved_city)
       then s\<lparr>city := Some saved_city\<rparr> else s) s xs) = saved_cities s \<and>
   weather_data (foldl (\<lambda>s saved_city. if clicked ui = Some (FavoriteCity saved_city)
       then s\<lparr>city := Some saved_city\<rparr> else s) s xs) = weather_data s \<and>
   air_data (foldl (\<lambda>s saved_city. if clicked ui = Some (FavoriteCity saved_city)
       then s\<lparr>city := Some saved_city\<rparr> else s) s xs) = air_data s \<and>
   location (foldl (\<lambda>s saved_city. if clicked ui = Some (FavoriteCity saved_city)
       then s\<lparr>city := Some saved_city\<rparr> else s) s xs) = location s \<and>
   unit_symbol (foldl (\<lambda>s saved_city. if clicked ui = Some (FavoriteCity saved_city)
       then s\<lparr>city := Some saved_city\<rparr> else s) s xs) = unit_symbol s \<and>
   selected_unit (foldl (\<lambda>s saved_city. if clicked ui = Some (FavoriteCity saved_city)
       then s\<lparr>city := Some saved_city\<rparr> else s) s xs) = selected_unit s"
  by (induction xs arbitrary: s) simp_all

lemma sidebar_keeps:
  "weather_data (sidebar ui s) = weather_data s"
  "air_data (sidebar ui s) = air_data s"
  "location (sidebar ui s) = location s"
  "unit_symbol (sidebar ui s) = unit_symbol s"
  "selected_unit (sidebar ui s) = selected_unit s"
  "saved_cities (sidebar ui s) =
     Some (case saved_cities s of None \<Rightarrow> [''London'', ''New York'', ''Tokyo''] | Some fs \<Rightarrow> fs)"
  by (auto simp add: sidebar_def Let_def favourite_buttons_keep split: option.splits)

lemma sidebar_city: "\<exists>c. city (sidebar ui s) = Some c"
  by (auto simp add: sidebar_def Let_def)

lemma get_weather_data_shape:
  "(\<exists>w a l. get_weather_data api c units = ((Some w, Some a, Some l), [])) \<or>
   (\<exists>m. get_weather_data api c units = ((None, None, None), [StError m]))"
  by (auto simp add: get_weather_data_def Let_def split: reply.splits option.splits list.splits)

lemma main_content_fetched:
  assumes "city s = Some c" "c \<noteq> []" "saved_cities s = Some fs"
    and "get_weather_data api c (unit_options (radio ui)) = ((Some w, Some a, Some l), shown)"
  shows "main_content api ui s =
     (s\<lparr>weather_data := Some w, air_data := Some a,
         unit_symbol := Some (if unit_options (radio ui) = ''metric''
                              then degree_sign @ ''C'' else degree_sign @ ''F''),
         selected_unit := Some (unit_options (radio ui)), location := Some l,
         saved_cities := Some (if c \<in> set fs then fs
                               else (if 5 \<le> length fs then tl fs else fs) @ [c])\<rparr>, shown)"
  using assms by (simp add: main_content_def Let_def)

lemma main_content_failed:
  assumes "city s = Some c"
    and "get_weather_data api c (unit_options (radio ui)) = ((None, None, None), shown)"
  shows "main_content api ui s =
     (s, if c = [] then [StInfo ''Please enter a city name in the sidebar.''] else shown)"
  using assms by (simp add: main_content_def Let_def)

lemma main_content_empty:
  assumes "city s = Some []"
  shows "main_content api ui s = (s, [StInfo ''Please enter a city name in the sidebar.''])"
  using assms by (simp add: main_content_def Let_def)

lemma in_set_tl: "x \<in> set (tl xs) \<Longrightarrow> x \<in> set xs"
  by (cases xs) auto

lemma add_favourite_bounded:
  assumes "length fs \<le> 5" "distinct fs"
  shows "length (if c \<in> set fs then fs else (if 5 \<le> length fs then tl fs else fs) @ [c]) \<le> 5"
    and "distinct (if c \<in> set fs then fs else (if 5 \<le> length fs then tl fs else fs) @ [c])"
  using assms by (auto simp add: distinct_tl dest: in_set_tl)

lemma run_script_keeps_bound:
  assumes "\<forall>fs. saved_cities s = Some fs \<longrightarrow> length fs \<le> 5 \<and> distinct fs"
  shows "\<exists>fs. saved_cities (fst (run_script api ui s)) = Some fs \<and> length fs \<le> 5 \<and> distinct fs"
proof -
  obtain c where c: "city (sidebar ui s) = Some c" using sidebar_city by blast
  define fs where "fs = (case saved_cities s of None \<Rightarrow> [''London'', ''New York'', ''Tokyo'']
                         | Some fs \<Rightarrow> fs)"
  have fs: "saved_cities (sidebar ui s) = Some fs"
    unfolding fs_def by (rule sidebar_keeps(6))
  have ok: "length fs \<le> 5 \<and> distinct fs"
  proof (cases "saved_cities s")
    case None
    then show ?thesis by (simp add: fs_def)
  next
    case (Some old)
    then show ?thesis using assms by (simp add: fs_def)
  qed
  consider (fetched) w a l where "c \<noteq> []"
      "get_weather_data api c (unit_options (radio ui)) = ((Some w, Some a, Some l), [])"
    | (failed) m where "get_weather_data api c (unit_options (radio ui)) = ((None, None, None), [StError m])"
    | (empty) "c = []"
    using get_weather_data_shape [of api c "unit_options (radio ui)"] by blast
  then show ?thesis
  proof cases
    case fetched
    have "saved_cities (fst (main_content api ui (sidebar ui s))) =
        Some (if c \<in> set fs then fs else (if 5 \<le> length fs then tl fs else fs) @ [c])"
      by (simp add: main_content_fetched [OF c fetched(1) fs fetched(2)])
    then show ?thesis
      unfolding run_script_def
      using add_favourite_bounded [of fs c] ok by blast
  next
    case failed
    have "fst (main_content api ui (sidebar ui s)) = sidebar ui s"
      by (simp add: main_content_failed [OF c failed])
    then show ?thesis
      unfolding run_script_def using fs ok by simp
  next
    case empty
    have "fst (main_content api ui (sidebar ui s)) = sidebar ui s"
      using c empty by (simp add: main_content_empty)
    then show ?thesis
      unfolding run_script_def using fs ok by simp
  qed
qed

lemma run_session_keeps_bound:
  assumes "\<forall>fs. saved_cities s = Some fs \<longrightarrow> length fs \<le> 5 \<and> distinct fs"
  shows "\<forall>fs. saved_cities (run_session s trace) = Some fs \<longrightarrow> length fs \<le> 5 \<and> distinct fs"
  using assms
proof (induction trace arbitrary: s)
  case Nil
  then show ?case by simp
next
  case (Cons step rest)
  obtain api ui where step: "step = (api, ui)" by (cases step)
  have "\<forall>fs. saved_cities (fst (run_script api ui s)) = Some fs \<longrightarrow> length fs \<le> 5 \<and> distinct fs"
    using run_script_keeps_bound [OF Cons.prems, of api ui] by auto
  then have "\<forall>fs. saved_cities (run_session (fst (run_script api ui s)) rest) = Some fs
      \<longrightarrow> length fs \<le> 5 \<and> distinct fs"
    by (rule Cons.IH)
  then show ?case by (simp add: step)
qed

lemma reachable_bound:
  "\<forall>fs. saved_cities (run_session new_session trace) = Some fs \<longrightarrow> length fs \<le> 5 \<and> distinct fs"
  by (rule run_session_keeps_bound) (simp add: new_session_def)

lemma online_fetch:
  "c \<noteq> ''Atlantis'' \<Longrightarrow>
   get_weather_data online c units = ((Some sample_weather, Some sample_air, Some (sample_match c)), [])"
  by (simp add: get_weather_data_def online_def Let_def)

lemma busy_session_value:
  "busy_session =
     \<lparr>saved_cities = Some [''London'', ''New York'', ''Tokyo'', ''Paris'', ''Rome''],
      city = Some ''Rome'', weather_data = Some sample_weather, air_data = Some sample_air,
      unit_symbol = Some (degree_sign @ ''C''), selected_unit = Some ''metric'',
      location = Some (sample_match ''Rome'')\<rparr>"
  by (simp add: busy_session_def busy_trace_def run_script_def sidebar_def main_content_def
      new_session_def search_def unit_options_def online_fetch Let_def)

lemma busy_sidebar:
  "sidebar (search c) busy_session =
     \<lparr>saved_cities = Some [''London'', ''New York'', ''Tokyo'', ''Paris'', ''Rome''],
      city = Some c, weather_data = Some sample_weather, air_data = Some sample_air,
      unit_symbol = Some (degree_sign @ ''C''), selected_unit = Some ''metric'',
      location = Some (sample_match ''Rome'')\<rparr>"
  "sidebar (favorite ''Tokyo'') busy_session =
     \<lparr>saved_cities = Some [''London'', ''New York'', ''Tokyo'', ''Paris'', ''Rome''],
      city = Some ''Tokyo'', weather_data = Some sample_weather, air_data = Some sample_air,
      unit_symbol = Some (degree_sign @ ''C''), selected_unit = Some ''metric'',
      location = Some (sample_match ''Rome'')\<rparr>"
  by (simp_all add: busy_session_value sidebar_def search_def favorite_def Let_def)

section \<open>The list of favourites\<close>

text \<open>
  C3. In every state a session can reach, the list of favourites has at most five entries
  (and no entry twice). After a fetch that succeeded, a city already in the list is not
  added again; a new city is appended, and when the list already holds five entries its
  first (oldest) entry is removed first. Here \<open>before\<close> is the list when the fetch starts and
  \<open>after\<close> the list when the run ends.
\<close>

theorem favorites_at_most_five:
  fixes trace :: "(collaborators \<times> interaction) list" and api :: collaborators
    and ui :: interaction
  defines "s \<equiv> run_session new_session trace"
  defines "before \<equiv> (case saved_cities (sidebar ui s) of None \<Rightarrow> [] | Some fs \<Rightarrow> fs)"
  defines "c \<equiv> (case city (sidebar ui s) of None \<Rightarrow> [] | Some c \<Rightarrow> c)"
  defines "after \<equiv> (case saved_cities (fst (run_script api ui s)) of None \<Rightarrow> [] | Some fs \<Rightarrow> fs)"
  defines "fetched \<equiv> c \<noteq> [] \<and>
     (\<exists>w a l. fst (get_weather_data api c (unit_options (radio ui))) = (Some w, Some a, Some l))"
  shows
  "(\<forall>fs. saved_cities s = Some fs \<longrightarrow> length fs \<le> 5 \<and> distinct fs) \<and>
   length before \<le> 5 \<and> distinct before \<and> length after \<le> 5 \<and> distinct after \<and>
   (fetched \<and> c \<in> set before \<longrightarrow> after = before) \<and>
   (fetched \<and> c \<notin> set before \<and> length before = 5 \<longrightarrow> after = tl before @ [c]) \<and>
   (fetched \<and> c \<notin> set before \<and> length before < 5 \<longrightarrow> after = before @ [c]) \<and>
   (\<not> fetched \<longrightarrow> after = before)"
proof -
  have inv: "\<forall>fs. saved_cities s = Some fs \<longrightarrow> length fs \<le> 5 \<and> distinct fs"
    unfolding s_def by (rule reachable_bound)
  obtain c' where c': "city (sidebar ui s) = Some c'" using sidebar_city by blast
  then have cc: "c = c'" by (simp add: c_def)
  have sb: "saved_cities (sidebar ui s) = Some before"
    by (simp add: before_def sidebar_keeps)
  have b_eq: "before = (case saved_cities s of None \<Rightarrow> [''London'', ''New York'', ''Tokyo'']
                         | Some fs \<Rightarrow> fs)"
    by (simp add: before_def sidebar_keeps)
  have b_ok: "length before \<le> 5 \<and> distinct before"
  proof (cases "saved_cities s")
    case None
    then show ?thesis by (simp add: b_eq)
  next
    case (Some old)
    then show ?thesis using inv by (simp add: b_eq)
  qed
  have a_ok: "length after \<le> 5 \<and> distinct after"
    using run_script_keeps_bound [OF inv, of api ui] by (auto simp add: after_def)
  have hit: "after = (if c \<in> set before then before
                       else (if 5 \<le> length before then tl before else before) @ [c])"
    if "fetched"
  proof -
    from that obtain w a l where ne: "c \<noteq> []"
      and f: "fst (get_weather_data api c (unit_options (radio ui))) = (Some w, Some a, Some l)"
      unfolding fetched_def by blast
    obtain shown where g: "get_weather_data api c (unit_options (radio ui))
        = ((Some w, Some a, Some l), shown)"
      using f by (cases "get_weather_data api c (unit_options (radio ui))") simp
    have "saved_cities (fst (main_content api ui (sidebar ui s))) =
        Some (if c \<in> set before then before
              else (if 5 \<le> length before then tl before else before) @ [c])"
      using main_content_fetched [OF c' _ sb, of api ui w a l shown] ne g cc by simp
    then show ?thesis by (simp add: after_def run_script_def)
  qed
  have miss: "after = before" if "\<not> fetched"
  proof (cases "c = []")
    case True
    then have "fst (main_content api ui (sidebar ui s)) = sidebar ui s"
      using c' cc by (simp add: main_content_empty)
    then show ?thesis using sb by (simp add: after_def run_script_def)
  next
    case False
    have "\<not> (\<exists>w a l. get_weather_data api c (unit_options (radio ui)) = ((Some w, Some a, Some l), []))"
    proof
      assume "\<exists>w a l. get_weather_data api c (unit_options (radio ui)) = ((Some w, Some a, Some l), [])"
      then obtain w a l where
        "get_weather_data api c (unit_options (radio ui)) = ((Some w, Some a, Some l), [])"
        by blast
      then have "fst (get_weather_data api c (unit_options (radio ui))) = (Some w, Some a, Some l)"
        by simp
      then have fetched unfolding fetched_def using False by blast
      with that show False by contradiction
    qed
    then obtain m where
      "get_weather_data api c (unit_options (radio ui)) = ((None, None, None), [StError m])"
      using get_weather_data_shape [of api c "unit_options (radio ui)"] by blast
    then have "fst (main_content api ui (sidebar ui s)) = sidebar ui s"
      using main_content_failed [OF c', of api ui] cc by simp
    then show ?thesis using sb by (simp add: after_def run_script_def)
  qed
  show ?thesis
    apply (intro conjI impI)
    subgoal by (rule inv)
    subgoal using b_ok by blast
    subgoal using b_ok by blast
    subgoal using a_ok by blast
    subgoal using a_ok by blast
    subgoal using hit by simp
    subgoal using hit by simp
    subgoal using hit by simp
    subgoal using miss by simp
    done
qed

theorem favorites_at_most_five_witness:
  "saved_cities busy_session = Some [''London'', ''New York'', ''Tokyo'', ''Paris'', ''Rome''] \<and>
   saved_cities (fst (run_script online (search ''Oslo'') busy_session))
     = Some [''New York'', ''Tokyo'', ''Paris'', ''Rome'', ''Oslo''] \<and>
   saved_cities (fst (run_script online (favorite ''Tokyo'') busy_session))
     = Some [''London'', ''New York'', ''Tokyo'', ''Paris'', ''Rome''] \<and>
   saved_cities (fst (run_script online (search ''Atlantis'') busy_session))
     = Some [''London'', ''New York'', ''Tokyo'', ''Paris'', ''Rome''] \<and>
   saved_cities (fst (run_script online (search ''Oslo'') new_session))
     = Some [''London'', ''New York'', ''Tokyo'', ''Oslo'']"
proof -
  have fetch: "fst (get_weather_data online ''Oslo'' ''metric'')
      = (Some sample_weather, Some sample_air, Some (sample_match ''Oslo''))"
    "fst (get_weather_data online ''Tokyo'' ''metric'')
      = (Some sample_weather, Some sample_air, Some (sample_match ''Tokyo''))"
    "fst (get_weather_data online ''Atlantis'' ''metric'') = (None, None, None)"
    by (simp_all add: online_fetch) (simp add: get_weather_data_def online_def)
  have units: "unit_options (radio (search c)) = ''metric''"
    "unit_options (radio (favorite c)) = ''metric''" for c
    by (simp_all add: search_def favorite_def unit_options_def)
  have fresh: "sidebar (search ''Oslo'') new_session =
      new_session\<lparr>saved_cities := Some [''London'', ''New York'', ''Tokyo''], city := Some ''Oslo''\<rparr>"
    by (simp add: sidebar_def new_session_def search_def Let_def)
  note a = favorites_at_most_five [where trace = busy_trace and api = online
      and ui = "search ''Oslo''"]
  note b = favorites_at_most_five [where trace = busy_trace and api = online
      and ui = "favorite ''Tokyo''"]
  note c = favorites_at_most_five [where trace = busy_trace and api = online
      and ui = "search ''Atlantis''"]
  note d = favorites_at_most_five [where trace = "[]" and api = online
      and ui = "search ''Oslo''"]
  have 1: "saved_cities busy_session = Some [''London'', ''New York'', ''Tokyo'', ''Paris'', ''Rome'']"
    by (simp add: busy_session_value)
  have 2: "saved_cities (fst (run_script online (search ''Oslo'') busy_session))
     = Some [''New York'', ''Tokyo'', ''Paris'', ''Rome'', ''Oslo'']"
    using a unfolding busy_session_def [symmetric]
    by (simp add: busy_sidebar fetch units 1 split: option.splits)
  have 3: "saved_cities (fst (run_script online (favorite ''Tokyo'') busy_session))
     = Some [''London'', ''New York'', ''Tokyo'', ''Paris'', ''Rome'']"
    using b unfolding busy_session_def [symmetric]
    by (simp add: busy_sidebar fetch units 1 split: option.splits)
  have 4: "saved_cities (fst (run_script online (search ''Atlantis'') busy_session))
     = Some [''London'', ''New York'', ''Tokyo'', ''Paris'', ''Rome'']"
    using c unfolding busy_session_def [symmetric]
    by (simp add: busy_sidebar fetch units 1 split: option.splits)
  have 5: "saved_cities (fst (run_script online (search ''Oslo'') new_session))
     = Some [''London'', ''New York'', ''Tokyo'', ''Oslo'']"
    using d by (simp add: fresh fetch units split: option.splits)
  show ?thesis using 1 2 3 4 5 by blast
qed

section \<open>A city that is not found\<close>

text \<open>
  C4. When the geocoder returns no match for the city (no \<open>results\<close> key, or an empty
  list), \<open>get_weather_data\<close> shows the message \<open>City not found: <city>. Please try again.\<close>
  and returns \<open>(None, None, None)\<close>; the run of the script leaves the stored weather data,
  air data, location, unit and favourites as they were.
\<close>

theorem city_not_found:
  fixes api :: collaborators and c units :: string and ui :: interaction and s :: session_state
    and g :: geo_json
  defines "message \<equiv> ''City not found: '' @ c @ ''. Please try again.''"
  defines "s' \<equiv> fst (run_script api ui s)"
  shows
  "geocoding api c = Json g \<and> (results g = None \<or> results g = Some []) \<longrightarrow>
     get_weather_data api c units = ((None, None, None), [StError message]) \<and>
     prefix (''City not found: '' @ c @ ''.'') message \<and>
     (city (sidebar ui s) = Some c \<longrightarrow>
        weather_data s' = weather_data s \<and> air_data s' = air_data s \<and>
        location s' = location s \<and> unit_symbol s' = unit_symbol s \<and>
        selected_unit s' = selected_unit s \<and>
        saved_cities s' = saved_cities (sidebar ui s) \<and>
        (\<forall>fs. saved_cities s = Some fs \<longrightarrow> saved_cities s' = Some fs) \<and>
        (c \<noteq> [] \<longrightarrow> snd (run_script api ui s) = [StError message]))"
proof (intro impI)
  assume a: "geocoding api c = Json g \<and> (results g = None \<or> results g = Some [])"
  have fail: "get_weather_data api c u = ((None, None, None), [StError message])" for u
    using a by (auto simp add: get_weather_data_def message_def)
  have pre: "prefix (''City not found: '' @ c @ ''.'') message"
    by (simp add: message_def)
  have run: "weather_data s' = weather_data s \<and> air_data s' = air_data s \<and>
        location s' = location s \<and> unit_symbol s' = unit_symbol s \<and>
        selected_unit s' = selected_unit s \<and>
        saved_cities s' = saved_cities (sidebar ui s) \<and>
        (\<forall>fs. saved_cities s = Some fs \<longrightarrow> saved_cities s' = Some fs) \<and>
        (c \<noteq> [] \<longrightarrow> snd (run_script api ui s) = [StError message])"
    if c: "city (sidebar ui s) = Some c"
  proof -
    have m: "main_content api ui (sidebar ui s) =
        (sidebar ui s, if c = [] then [StInfo ''Please enter a city name in the sidebar.'']
                       else [StError message])"
      by (rule main_content_failed [OF c fail])
    have s': "s' = sidebar ui s" by (simp add: s'_def run_script_def m)
    have n: "c \<noteq> [] \<longrightarrow> snd (run_script api ui s) = [StError message]"
      by (simp add: run_script_def m)
    show ?thesis using n by (simp add: s' sidebar_keeps)
  qed
  show "get_weather_data api c units = ((None, None, None), [StError message]) \<and>
     prefix (''City not found: '' @ c @ ''.'') message \<and>
     (city (sidebar ui s) = Some c \<longrightarrow>
        weather_data s' = weather_data s \<and> air_data s' = air_data s \<and>
        location s' = location s \<and> unit_symbol s' = unit_symbol s \<and>
        selected_unit s' = selected_unit s \<and>
        saved_cities s' = saved_cities (sidebar ui s) \<and>
        (\<forall>fs. saved_cities s = Some fs \<longrightarrow> saved_cities s' = Some fs) \<and>
        (c \<noteq> [] \<longrightarrow> snd (run_script api ui s) = [StError message]))"
    using fail [of units] pre run by blast
qed

theorem city_not_found_witness:
  "get_weather_data online ''Atlantis'' ''imperial'' =
     ((None, None, None), [StError ''City not found: Atlantis. Please try again.'']) \<and>
   get_weather_data empty_results ''Atlantis'' ''metric'' =
     ((None, None, None), [StError ''City not found: Atlantis. Please try again.'']) \<and>
   weather_data (fst (run_script online (search ''Atlantis'') busy_session)) = Some sample_weather \<and>
   air_data (fst (run_script online (search ''Atlantis'') busy_session)) = Some sample_air \<and>
   location (fst (run_script online (search ''Atlantis'') busy_session))
     = Some (sample_match ''Rome'') \<and>
   saved_cities (fst (run_script online (search ''Atlantis'') busy_session))
     = Some [''London'', ''New York'', ''Tokyo'', ''Paris'', ''Rome''] \<and>
   snd (run_script online (search ''Atlantis'') busy_session)
     = [StError ''City not found: Atlantis. Please try again.'']"
proof -
  have g1: "geocoding online ''Atlantis'' = Json \<lparr>results = None\<rparr>"
    by (simp add: online_def)
  have g2: "geocoding empty_results ''Atlantis'' = Json \<lparr>results = Some []\<rparr>"
    by (simp add: empty_results_def online_def)
  have sb: "city (sidebar (search ''Atlantis'') busy_session) = Some ''Atlantis''"
    by (simp add: busy_sidebar)
  note a = city_not_found [where api = online and c = "''Atlantis''" and units = "''imperial''"
      and g = "\<lparr>results = None\<rparr>" and ui = "search ''Atlantis''" and s = busy_session]
  note b = city_not_found [where api = empty_results and c = "''Atlantis''"
      and units = "''metric''" and g = "\<lparr>results = Some []\<rparr>" and ui = "search ''Atlantis''"
      and s = busy_session]
  have old: "weather_data busy_session = Some sample_weather"
    "air_data busy_session = Some sample_air"
    "location busy_session = Some (sample_match ''Rome'')"
    "saved_cities busy_session = Some [''London'', ''New York'', ''Tokyo'', ''Paris'', ''Rome'']"
    by (simp_all add: busy_session_value)
  show ?thesis
    using a b g1 g2 sb old by (simp add: busy_sidebar)
qed

text \<open>
  The message is not the bare sentence \<open>City not found: Atlantis.\<close>: the source appends
  \<open>Please try again.\<close> to it.
\<close>

theorem city_not_found_message_counterexample:
  "get_weather_data online ''Atlantis'' ''metric'' =
     ((None, None, None), [StError ''City not found: Atlantis. Please try again.'']) \<and>
   snd (get_weather_data online ''Atlantis'' ''metric'') \<noteq> [StError ''City not found: Atlantis.'']"
  by (simp add: get_weather_data_def online_def)

section \<open>All or nothing\<close>






lemma match_doc_fields:
  "py_getitem (match_doc m) ''latitude'' = Inr (JNum (Finite (latitude m)))"
  "py_getitem (match_doc m) ''longitude'' = Inr (JNum (Finite (longitude m)))"
  "py_getitem (match_doc m) ''timezone'' = Inr (JStr (timezone m))"
  by (simp_all add: match_doc_def split: option.splits)

lemma typed_fetch_is_raw_fetch:
  "get_weather_data_raw (documents_of api) c units =
     Inr (case fst (get_weather_data api c units) of
            (w, a, l) \<Rightarrow> (or_null weather_doc w, or_null air_doc a, or_null match_doc l),
          snd (get_weather_data api c units))"
proof (cases "geocoding api c")
  case (HTTPError e)
  then show ?thesis
    by (simp add: get_weather_data_raw_def get_weather_data_def documents_of_def)
next
  case (RequestException e)
  then show ?thesis
    by (simp add: get_weather_data_raw_def get_weather_data_def documents_of_def)
next
  case (Json g)
  show ?thesis
  proof (cases "results g")
    case None
    then show ?thesis
      by (simp add: get_weather_data_raw_def get_weather_data_def documents_of_def Json
          geo_doc_def city_not_found_result_def)
  next
    case (Some ms)
    show ?thesis
    proof (cases ms)
      case Nil
      then show ?thesis
        by (simp add: get_weather_data_raw_def get_weather_data_def documents_of_def Json
            geo_doc_def city_not_found_result_def Some)
    next
      case (Cons m rest)
      have "get_weather_data_raw (documents_of api) c units =
          after_geocoding (documents_of api) units (match_doc m)"
        by (simp add: get_weather_data_raw_def documents_of_def Json geo_doc_def Some Cons)
      also have "\<dots> = Inr (case fst (get_weather_data api c units) of
            (w, a, l) \<Rightarrow> (or_null weather_doc w, or_null air_doc a, or_null match_doc l),
          snd (get_weather_data api c units))"
        by (simp add: after_geocoding_def match_doc_fields get_weather_data_def Json Some Cons
            documents_of_def Let_def split: reply.splits)
      finally show ?thesis .
    qed
  qed
qed




end
